theory Spec2Isabelle
  imports Complex_Main "HOL-Library.Char_ord" "HOL-Library.List_Lexorder"
begin

section \<open>The time-series chart component: data model\<close>

subsection \<open>JavaScript numbers\<close>

text \<open>
  A JavaScript \<^verbatim>\<open>number\<close> is an IEEE 754 double. The finite doubles other than
  the negative zero are \<open>Fin q\<close>, for the rationals \<open>q\<close> that are doubles
  (\<open>m\<cdot>2\<^sup>e\<close> with \<open>\<bar>m\<bar> < 2\<^sup>5\<^sup>3\<close>, \<open>e \<ge> -1074\<close>, below \<open>2\<^sup>1\<^sup>0\<^sup>2\<^sup>4\<close>); \<open>Fin 0\<close> is the
  positive zero.
\<close>

datatype number = Fin rat | NegZero | NaN | PosInfinity | NegInfinity

text \<open>The sign bit, the rational value of a finite number, and the kinds of numbers.\<close>

fun negative :: "number \<Rightarrow> bool" where
  "negative (Fin a) = (a < 0)"
| "negative NegZero = True"
| "negative NegInfinity = True"
| "negative _ = False"

fun rat_of :: "number \<Rightarrow> rat" where
  "rat_of (Fin a) = a"
| "rat_of _ = 0"

definition is_zero :: "number \<Rightarrow> bool" where
  "is_zero x = (x = Fin 0 \<or> x = NegZero)"

definition is_infinite :: "number \<Rightarrow> bool" where
  "is_infinite x = (x = PosInfinity \<or> x = NegInfinity)"

definition zero :: "bool \<Rightarrow> number" where
  "zero s = (if s then NegZero else Fin 0)"

definition infinity :: "bool \<Rightarrow> number" where
  "infinity s = (if s then NegInfinity else PosInfinity)"

text \<open>
  Rounding to the nearest double, ties to the even significand. \<open>floor_log2 a\<close> is the
  binary exponent of a positive rational \<open>a\<close>, found from the bit lengths of its
  numerator and denominator; the significand has 53 bits, from the exponent \<open>-1074\<close>
  of the subnormal numbers on; a result of \<open>2\<^sup>1\<^sup>0\<^sup>2\<^sup>4\<close> or more is an infinity. \<open>double s q\<close>
  is the double for the exact result \<open>q\<close> of an operation; \<open>s\<close> is the sign that a zero
  takes when \<open>q\<close> itself is zero (a non-zero \<open>q\<close> that rounds to zero keeps its own
  sign).
\<close>

definition pow2 :: "int \<Rightarrow> rat" where
  "pow2 k = 2 powi k"

function bits :: "int \<Rightarrow> int" where
  "bits n = (if n \<le> 0 then 0 else 1 + bits (n div 2))"
  by pat_completeness auto
termination
  by (relation "measure (\<lambda>n. nat n)") auto

definition floor_log2 :: "rat \<Rightarrow> int" where
  "floor_log2 a =
     (case quotient_of a of (p, q) \<Rightarrow>
        (let k = bits p - bits q
         in if pow2 k \<le> a then k else k - 1))"

definition round_even :: "rat \<Rightarrow> int" where
  "round_even a =
     (let f = \<lfloor>a\<rfloor>; d = a - of_int f
      in if d < 1 / 2 then f else if 1 / 2 < d then f + 1 else if even f then f else f + 1)"

definition double :: "bool \<Rightarrow> rat \<Rightarrow> number" where
  "double s q =
     (if q = 0 then zero s
      else
        (let a = \<bar>q\<bar>;
             e = max (floor_log2 a - 52) (- 1074);
             r = of_int (round_even (a / pow2 e)) * pow2 e
         in if pow2 1024 \<le> r then infinity (q < 0)
            else if r = 0 then zero (q < 0)
            else Fin (if q < 0 then - r else r)))"

text \<open>
  The four operations. \<^verbatim>\<open>NaN\<close> is absorbing; infinities of opposite sign add to
  \<^verbatim>\<open>NaN\<close>, as do zero times infinity and the quotients of two zeros or of two
  infinities; a sum that is exactly zero is the negative zero only when both summands
  are; the sign of a product or quotient is the exclusive or of the signs; every other
  result is the exact one, rounded.
\<close>

fun nneg :: "number \<Rightarrow> number" where
  "nneg (Fin a) = (if a = 0 then NegZero else Fin (- a))"
| "nneg NegZero = Fin 0"
| "nneg NaN = NaN"
| "nneg PosInfinity = NegInfinity"
| "nneg NegInfinity = PosInfinity"

definition nadd :: "number \<Rightarrow> number \<Rightarrow> number" where
  "nadd x y =
     (if x = NaN \<or> y = NaN then NaN
      else if is_infinite x \<and> is_infinite y then (if x = y then x else NaN)
      else if is_infinite x then x
      else if is_infinite y then y
      else double (x = NegZero \<and> y = NegZero) (rat_of x + rat_of y))"

definition nsub :: "number \<Rightarrow> number \<Rightarrow> number" where
  "nsub x y = nadd x (nneg y)"

definition nmul :: "number \<Rightarrow> number \<Rightarrow> number" where
  "nmul x y =
     (if x = NaN \<or> y = NaN then NaN
      else if is_infinite x \<or> is_infinite y
        then (if is_zero x \<or> is_zero y then NaN else infinity (negative x \<noteq> negative y))
      else double (negative x \<noteq> negative y) (rat_of x * rat_of y))"

definition ndiv :: "number \<Rightarrow> number \<Rightarrow> number" where
  "ndiv x y =
     (if x = NaN \<or> y = NaN then NaN
      else if is_infinite x
        then (if is_infinite y then NaN else infinity (negative x \<noteq> negative y))
      else if is_infinite y then zero (negative x \<noteq> negative y)
      else if is_zero y
        then (if is_zero x then NaN else infinity (negative x \<noteq> negative y))
      else double (negative x \<noteq> negative y) (rat_of x / rat_of y))"

text \<open>
  An array index as a number: an array is shorter than \<open>2\<^sup>3\<^sup>2\<close>, so an index is a double.
  And a decimal literal of the source, which is the double nearest to it.
\<close>

definition num :: "nat \<Rightarrow> number" where
  "num i = Fin (of_nat i)"

definition literal :: "rat \<Rightarrow> number" where
  "literal q = double False q"

text \<open>
  Truthiness of a number, as \<^verbatim>\<open>||\<close> tests it: the zeros and \<^verbatim>\<open>NaN\<close> are falsy.
\<close>

fun truthy :: "number \<Rightarrow> bool" where
  "truthy (Fin a) = (a \<noteq> 0)"
| "truthy NegZero = False"
| "truthy NaN = False"
| "truthy _ = True"

subsection \<open>Points and series\<close>

text \<open>
  \<^verbatim>\<open>interface DataPoint { x: number | Date | string; y: number }\<close>.
  The fields are named \<open>point_x\<close> and \<open>point_y\<close>, since a record field is a constant
  and \<open>x\<close>, \<open>y\<close> are wanted as variables. The type of \<open>x\<close> is a parameter: the
  chart data only copies it, and the CSV export only turns it into a string.
  The type of \<open>y\<close> is a parameter too; the chart data needs it to be \<^typ>\<open>number\<close>.
\<close>

record ('x, 'y) DataPoint =
  point_x :: 'x
  point_y :: 'y

datatype chart_kind = Line | Bar | Scatter

text \<open>
  \<^verbatim>\<open>interface DataSeries\<close>: the optional fields are options, \<open>None\<close> when the
  field is absent.
\<close>

record ('x, 'y) DataSeries =
  s_id :: string
  s_label :: string
  s_data :: "('x, 'y) DataPoint list"
  s_color :: "string option"
  s_hidden :: "bool option"
  s_type :: "chart_kind option"
  s_fill :: "bool option"
  s_tension :: "number option"
  s_borderWidth :: "number option"
  s_pointRadius :: "number option"
  s_yAxisID :: "string option"

section \<open>The trend estimator\<close>

text \<open>
  \<^verbatim>\<open>calculateTrendline\<close>. The local constants of the function are functions of the
  data here. \<^verbatim>\<open>reduce\<close> is a left fold; the callback of \<open>sumXY\<close> also gets the index
  of the element, so that fold runs over the elements paired with their indices.
  \<open>yValues ! i\<close> is always in range there: both arrays have the length of the data.
  Every operation is the one on doubles.
\<close>

definition xValues :: "('x, number) DataPoint list \<Rightarrow> number list" where
  "xValues data = map (\<lambda>(point, index). num index) (zip data [0..<length data])"

definition yValues :: "('x, number) DataPoint list \<Rightarrow> number list" where
  "yValues data = map (\<lambda>point. point_y point) data"

definition trend_n :: "('x, number) DataPoint list \<Rightarrow> number" where
  "trend_n data = num (length (xValues data))"

definition sumX :: "('x, number) DataPoint list \<Rightarrow> number" where
  "sumX data = foldl (\<lambda>a b. nadd a b) (Fin 0) (xValues data)"

definition sumY :: "('x, number) DataPoint list \<Rightarrow> number" where
  "sumY data = foldl (\<lambda>a b. nadd a b) (Fin 0) (yValues data)"

definition sumXY :: "('x, number) DataPoint list \<Rightarrow> number" where
  "sumXY data =
     foldl (\<lambda>a (b, i). nadd a (nmul b (yValues data ! i))) (Fin 0)
       (zip (xValues data) [0..<length (xValues data)])"

definition sumXX :: "('x, number) DataPoint list \<Rightarrow> number" where
  "sumXX data = foldl (\<lambda>a b. nadd a (nmul b b)) (Fin 0) (xValues data)"

definition slope :: "('x, number) DataPoint list \<Rightarrow> number" where
  "slope data =
     ndiv (nsub (nmul (trend_n data) (sumXY data)) (nmul (sumX data) (sumY data)))
          (nsub (nmul (trend_n data) (sumXX data)) (nmul (sumX data) (sumX data)))"

definition intercept :: "('x, number) DataPoint list \<Rightarrow> number" where
  "intercept data = ndiv (nsub (sumY data) (nmul (slope data) (sumX data))) (trend_n data)"

definition calculateTrendline :: "('x, number) DataPoint list \<Rightarrow> ('x, number) DataPoint list" where
  "calculateTrendline data =
     (if length data < 2 then []
      else map (\<lambda>(point, index).
                  \<lparr>point_x = point_x point,
                   point_y = nadd (nmul (slope data) (num index)) (intercept data)\<rparr>)
               (zip data [0..<length data]))"




text \<open>
  The same formula over the rationals, without rounding: the least-squares line of the
  values \<open>ys\<close> at the indices \<open>0, \<dots>, n - 1\<close>; and the sum of the squared distances of
  the values from a line \<open>a\<cdot>i + b\<close>, which that line makes least.
\<close>

definition ols_slope :: "rat list \<Rightarrow> rat" where
  "ols_slope ys =
     (let n = length ys in
      (of_nat n * (\<Sum>i\<leftarrow>[0..<n]. of_nat i * ys ! i)
         - (\<Sum>i\<leftarrow>[0..<n]. of_nat i) * (\<Sum>i\<leftarrow>[0..<n]. ys ! i))
      / (of_nat n * (\<Sum>i\<leftarrow>[0..<n]. of_nat i * of_nat i) - (\<Sum>i\<leftarrow>[0..<n]. of_nat i)\<^sup>2))"

definition ols_intercept :: "rat list \<Rightarrow> rat" where
  "ols_intercept ys =
     (let n = length ys in
      ((\<Sum>i\<leftarrow>[0..<n]. ys ! i) - ols_slope ys * (\<Sum>i\<leftarrow>[0..<n]. of_nat i)) / of_nat n)"

definition sq_error :: "rat list \<Rightarrow> rat \<Rightarrow> rat \<Rightarrow> rat" where
  "sq_error ys a b = (\<Sum>i\<leftarrow>[0..<length ys]. (ys ! i - (a * of_nat i + b))\<^sup>2)"

section \<open>The render model\<close>

text \<open>
  The two theme colours the chart data reads:
  \<^verbatim>\<open>theme.palette.primary.main\<close> and \<^verbatim>\<open>theme.palette.secondary.main\<close>.
\<close>

record theme =
  primary_main :: string
  secondary_main :: string

text \<open>
  One entry of \<^verbatim>\<open>chartData.datasets\<close>. A primary dataset has no \<^verbatim>\<open>borderDash\<close>
  and a trend dataset no \<^verbatim>\<open>pointHoverRadius\<close>: both are options.
\<close>

record 'x dataset =
  d_label :: string
  d_data :: "('x, number) DataPoint list"
  d_borderColor :: string
  d_backgroundColor :: string
  d_borderWidth :: number
  d_borderDash :: "number list option"
  d_pointRadius :: number
  d_pointHoverRadius :: "number option"
  d_tension :: number
  d_fill :: bool
  d_yAxisID :: string
  d_type :: chart_kind

text \<open>
  Truthiness of an optional string, and \<^verbatim>\<open>a || b\<close> on an optional field: an absent
  field, the empty string, zero, \<^verbatim>\<open>NaN\<close> and \<^verbatim>\<open>false\<close> are falsy and give \<open>b\<close>.
  Where \<open>a\<close> is a truthy string, \<open>or_string a []\<close> is that string.
\<close>

fun truthy_string :: "string option \<Rightarrow> bool" where
  "truthy_string None = False"
| "truthy_string (Some a) = (a \<noteq> [])"

fun or_string :: "string option \<Rightarrow> string \<Rightarrow> string" where
  "or_string None b = b"
| "or_string (Some a) b = (if a = [] then b else a)"

fun or_number :: "number option \<Rightarrow> number \<Rightarrow> number" where
  "or_number None b = b"
| "or_number (Some a) b = (if truthy a then a else b)"

fun or_bool :: "bool option \<Rightarrow> bool \<Rightarrow> bool" where
  "or_bool None b = b"
| "or_bool (Some a) b = (a \<or> b)"

fun or_kind :: "chart_kind option \<Rightarrow> chart_kind \<Rightarrow> chart_kind" where
  "or_kind None b = b"
| "or_kind (Some a) b = a"

text \<open>The suffix \<^verbatim>\<open>s.type === 'bar' ? 'CC' : '33'\<close> of the background colour.\<close>

definition alpha_suffix :: "chart_kind option \<Rightarrow> string" where
  "alpha_suffix t = (if t = Some Bar then ''CC'' else ''33'')"

text \<open>The object the first \<^verbatim>\<open>map\<close> of \<^verbatim>\<open>chartData\<close> builds for a series.\<close>

definition primaryDataset :: "theme \<Rightarrow> chart_kind \<Rightarrow> ('x, number) DataSeries \<Rightarrow> 'x dataset" where
  "primaryDataset th chartType s =
     \<lparr>d_label = s_label s,
      d_data = map (\<lambda>point. \<lparr>point_x = point_x point, point_y = point_y point\<rparr>) (s_data s),
      d_borderColor = or_string (s_color s) (primary_main th),
      d_backgroundColor =
        (if truthy_string (s_color s) then or_string (s_color s) [] @ alpha_suffix (s_type s)
         else primary_main th @ alpha_suffix (s_type s)),
      d_borderWidth = or_number (s_borderWidth s) (Fin 2),
      d_borderDash = None,
      d_pointRadius = or_number (s_pointRadius s) (Fin 3),
      d_pointHoverRadius = Some (nadd (or_number (s_pointRadius s) (Fin 3)) (Fin 2)),
      d_tension = or_number (s_tension s) (literal (1 / 10)),
      d_fill = or_bool (s_fill s) False,
      d_yAxisID = or_string (s_yAxisID s) ''y'',
      d_type = or_kind (s_type s) chartType\<rparr>"

text \<open>The object the second \<^verbatim>\<open>map\<close> builds: the trend dataset of a series.\<close>

definition trendDataset :: "theme \<Rightarrow> ('x, number) DataSeries \<Rightarrow> 'x dataset" where
  "trendDataset th s =
     (let trendData = calculateTrendline (s_data s) in
      \<lparr>d_label = s_label s @ '' (Trend)'',
       d_data = trendData,
       d_borderColor =
         (if truthy_string (s_color s) then or_string (s_color s) [] @ ''99''
          else secondary_main th @ ''99''),
       d_backgroundColor = ''transparent'',
       d_borderWidth = Fin 2,
       d_borderDash = Some [Fin 5, Fin 5],
       d_pointRadius = Fin 0,
       d_pointHoverRadius = None,
       d_tension = Fin 0,
       d_fill = False,
       d_yAxisID = or_string (s_yAxisID s) ''y'',
       d_type = Line\<rparr>)"

text \<open>
  \<^verbatim>\<open>chartData.datasets\<close>, from the theme, the state variables \<open>chartType\<close>,
  \<open>showTrendline\<close> and \<open>visibleSeries\<close>, and the \<open>series\<close> property.
  \<^verbatim>\<open>visibleSeries.includes(s.id)\<close> is membership in the list.
\<close>

definition chartData ::
  "theme \<Rightarrow> chart_kind \<Rightarrow> bool \<Rightarrow> string list \<Rightarrow> ('x, number) DataSeries list \<Rightarrow> 'x dataset list" where
  "chartData th chartType showTrendline visibleSeries series =
     map (primaryDataset th chartType) (filter (\<lambda>s. s_id s \<in> set visibleSeries) series)
     @ (if showTrendline
        then map (trendDataset th) (filter (\<lambda>s. s_id s \<in> set visibleSeries) series)
        else [])"

section \<open>The interaction controller\<close>

text \<open>
  The state variables of the component (\<^verbatim>\<open>useState\<close>). \<open>chartInstance\<close> records
  only whether the handle to the drawing library is set; the library itself is outside
  the component, and a call into it is an effect below. \<open>currentRange\<close> is never
  written after its initial value and never read: it is left out.
\<close>

record state =
  chartType :: chart_kind
  showTrendline :: bool
  showSettings :: bool
  visibleSeries :: "string list"
  chartInstance :: bool
  isZoomed :: bool

text \<open>
  \<^verbatim>\<open>interface TimeRange { start: Date | null; end: Date | null }\<close>, a date being its
  milliseconds since the epoch.
\<close>

record TimeRange =
  range_start :: "int option"
  range_end :: "int option"

datatype export_kind = PNG | CSV

text \<open>
  What a handler does beyond updating the state, in the order it does it: calls into
  the drawing library, calls of the two callback properties, the creation of a blob,
  and the click on a download link, with the file name and what the link points to
  (the text of the blob, or the image).
\<close>

datatype effect =
    ChartResetZoom
  | ChartZoom number
  | RangeChange TimeRange
  | CreateBlob string
  | Download string string
  | Export export_kind string

text \<open>
  The properties the handlers and the choice of what to render read. A callback
  property is present or absent; the handlers test that before they call it.
\<close>

record ('x, 'y) props =
  series :: "('x, 'y) DataSeries list"
  title :: "string option"
  loading :: bool
  error :: "string option"
  enableExport :: bool
  defaultChartType :: chart_kind
  onRangeChange :: bool
  onExport :: bool

definition initialState :: "('x, 'y) props \<Rightarrow> state" where
  "initialState p =
     \<lparr>chartType = defaultChartType p, showTrendline = False, showSettings = False,
      visibleSeries = [], chartInstance = False, isZoomed = False\<rparr>"

text \<open>
  The effect hook that runs on mount and whenever the \<open>series\<close> property changes:
  \<^verbatim>\<open>if (series && series.length > 0) setVisibleSeries(series.filter(s => !s.hidden).map(s => s.id))\<close>.
  An absent \<open>hidden\<close> is falsy.
\<close>

definition initVisibleSeries :: "('x, 'y) DataSeries list \<Rightarrow> state \<Rightarrow> state" where
  "initVisibleSeries ss st =
     (if length ss > 0
      then st\<lparr>visibleSeries := map s_id (filter (\<lambda>s. \<not> or_bool (s_hidden s) False) ss)\<rparr>
      else st)"

definition onChartRef :: "bool \<Rightarrow> state \<Rightarrow> state" where
  "onChartRef chart st = (if chart then st\<lparr>chartInstance := True\<rparr> else st)"

definition handleChartTypeChange :: "chart_kind \<Rightarrow> state \<Rightarrow> state" where
  "handleChartTypeChange t st = st\<lparr>chartType := t\<rparr>"

definition handleSeriesToggle :: "string \<Rightarrow> state \<Rightarrow> state" where
  "handleSeriesToggle seriesId st =
     st\<lparr>visibleSeries :=
        (let prev = visibleSeries st in
         if seriesId \<in> set prev then filter (\<lambda>id. id \<noteq> seriesId) prev
         else prev @ [seriesId])\<rparr>"

definition handleTrendlineToggle :: "state \<Rightarrow> state" where
  "handleTrendlineToggle st = st\<lparr>showTrendline := \<not> showTrendline st\<rparr>"

text \<open>
  \<^verbatim>\<open>onPanComplete\<close> and \<^verbatim>\<open>onZoomComplete\<close>, the callbacks that the component
  gives to the zoom plugin in the chart options; \<open>lo\<close> and \<open>hi\<close> are
  \<^verbatim>\<open>chart.scales.x.min\<close> and \<^verbatim>\<open>max\<close> at the time of the call.
\<close>

definition onPanComplete :: "('x, 'y) props \<Rightarrow> int \<Rightarrow> int \<Rightarrow> state \<Rightarrow> state \<times> effect list" where
  "onPanComplete p lo hi st =
     (st\<lparr>isZoomed := True\<rparr>,
      if onRangeChange p then [RangeChange \<lparr>range_start = Some lo, range_end = Some hi\<rparr>]
      else [])"

definition onZoomComplete :: "('x, 'y) props \<Rightarrow> int \<Rightarrow> int \<Rightarrow> state \<Rightarrow> state \<times> effect list" where
  "onZoomComplete p lo hi st =
     (st\<lparr>isZoomed := True\<rparr>,
      if onRangeChange p then [RangeChange \<lparr>range_start = Some lo, range_end = Some hi\<rparr>]
      else [])"

text \<open>
  The handlers of the zoom buttons call \<^verbatim>\<open>chartInstance.resetZoom()\<close> and
  \<^verbatim>\<open>chartInstance.zoom(f)\<close>. The zoom plugin ends both with a call of the
  \<^verbatim>\<open>onZoomComplete\<close> option, which is the component's own callback above: it runs
  inside the library call, before the rest of the handler, with the bounds \<open>lo\<close> and
  \<open>hi\<close> that the x scale has after the reset or the zoom. The state updates take
  effect in the order they are made, so the last one decides \<open>isZoomed\<close>.
\<close>

definition handleResetZoom :: "('x, 'y) props \<Rightarrow> int \<Rightarrow> int \<Rightarrow> state \<Rightarrow> state \<times> effect list" where
  "handleResetZoom p lo hi st =
     (if chartInstance st
      then (case onZoomComplete p lo hi st of (st', notified) \<Rightarrow>
              (st'\<lparr>isZoomed := False\<rparr>,
               ChartResetZoom # notified @
               (if onRangeChange p then [RangeChange \<lparr>range_start = None, range_end = None\<rparr>]
                else [])))
      else (st, []))"

definition handleZoomIn :: "('x, 'y) props \<Rightarrow> int \<Rightarrow> int \<Rightarrow> state \<Rightarrow> state \<times> effect list" where
  "handleZoomIn p lo hi st =
     (if chartInstance st
      then (case onZoomComplete p lo hi st of (st', notified) \<Rightarrow>
              (st'\<lparr>isZoomed := True\<rparr>, ChartZoom (literal (11 / 10)) # notified))
      else (st, []))"

definition handleZoomOut :: "('x, 'y) props \<Rightarrow> int \<Rightarrow> int \<Rightarrow> state \<Rightarrow> state \<times> effect list" where
  "handleZoomOut p lo hi st =
     (if chartInstance st
      then (case onZoomComplete p lo hi st of (st', notified) \<Rightarrow>
              (st'\<lparr>isZoomed := True\<rparr>, ChartZoom (literal (9 / 10)) # notified))
      else (st, []))"

text \<open>
  A click on the Reset zoom button, where the chart and the zoom controls are rendered.
  The button carries \<^verbatim>\<open>disabled={!isZoomed}\<close>: a click reaches
  \<^verbatim>\<open>handleResetZoom\<close> only while \<open>isZoomed\<close> holds.
\<close>

definition resetZoomButton :: "('x, 'y) props \<Rightarrow> int \<Rightarrow> int \<Rightarrow> state \<Rightarrow> state \<times> effect list" where
  "resetZoomButton p lo hi st =
     (if \<not> isZoomed st then (st, []) else handleResetZoom p lo hi st)"

text \<open>
  What can happen to a mounted component: the \<open>series\<close> property arrives or changes
  (the effect hook runs), the drawing library hands over the chart, the user clicks a
  control, or the zoom plugin reports a finished gesture of the user. The events of
  the zoom carry the bounds of the x scale after them.
\<close>

datatype ('x, 'y) event =
    SeriesProp "('x, 'y) DataSeries list"
  | ChartRef bool
  | ClickChartType chart_kind
  | ClickSeries string
  | ClickTrendline
  | ClickResetZoom int int
  | ClickZoomIn int int
  | ClickZoomOut int int
  | PanComplete int int
  | ZoomComplete int int

fun step :: "('x, 'y) props \<Rightarrow> ('x, 'y) event \<Rightarrow> state \<Rightarrow> state \<times> effect list" where
  "step p (SeriesProp ss) st = (initVisibleSeries ss st, [])"
| "step p (ChartRef chart) st = (onChartRef chart st, [])"
| "step p (ClickChartType t) st = (handleChartTypeChange t st, [])"
| "step p (ClickSeries seriesId) st = (handleSeriesToggle seriesId st, [])"
| "step p ClickTrendline st = (handleTrendlineToggle st, [])"
| "step p (ClickResetZoom lo hi) st = resetZoomButton p lo hi st"
| "step p (ClickZoomIn lo hi) st = handleZoomIn p lo hi st"
| "step p (ClickZoomOut lo hi) st = handleZoomOut p lo hi st"
| "step p (PanComplete lo hi) st = onPanComplete p lo hi st"
| "step p (ZoomComplete lo hi) st = onZoomComplete p lo hi st"

text \<open>A run of events from a state: the final state and all effects, in order.\<close>

fun run :: "('x, 'y) props \<Rightarrow> ('x, 'y) event list \<Rightarrow> state \<Rightarrow> state \<times> effect list" where
  "run p [] st = (st, [])"
| "run p (e # es) st =
     (case step p e st of (st', out) \<Rightarrow>
        (case run p es st' of (st'', out') \<Rightarrow> (st'', out @ out')))"



section \<open>The export engine\<close>

subsection \<open>The CSV table\<close>

text \<open>
  \<^verbatim>\<open>handleExportCSV\<close> turns every \<open>x\<close> into a string:
  \<^verbatim>\<open>x instanceof Date ? x.toISOString() : String(x)\<close>. An \<open>x\<close> is a number, a date or a
  string. A date is kept as the string that \<^verbatim>\<open>toISOString()\<close> returns for it, or
  \<open>None\<close> for an invalid date, on which \<^verbatim>\<open>toISOString()\<close> throws a
  \<^verbatim>\<open>RangeError\<close>. \<^verbatim>\<open>String\<close> on a number is the parameter \<open>str\<close> (it never
  throws), and the type of the numbers is a parameter with it.
\<close>

datatype 'n xvalue = XNumber 'n | XDate "string option" | XString string

datatype exception = RangeError

fun xString :: "('n \<Rightarrow> string) \<Rightarrow> 'n xvalue \<Rightarrow> exception + string" where
  "xString str (XDate None) = Inl RangeError"
| "xString str (XDate (Some isoString)) = Inr isoString"
| "xString str (XNumber n) = Inr (str n)"
| "xString str (XString s) = Inr s"

text \<open>
  The string \<^verbatim>\<open>xValue\<close> of a point whose \<open>x\<close> converts, and the series lists in which
  every \<open>x\<close> converts: those with no invalid date.
\<close>

definition xValueOf :: "('n \<Rightarrow> string) \<Rightarrow> ('n xvalue, 'y) DataPoint \<Rightarrow> string" where
  "xValueOf str p = projr (xString str (point_x p))"

definition validDates :: "('n xvalue, 'y) DataSeries list \<Rightarrow> bool" where
  "validDates ss = (\<forall>s\<in>set ss. \<forall>p\<in>set (s_data s). point_x p \<noteq> XDate None)"

text \<open>
  \<open>allXValues\<close> is a \<^verbatim>\<open>Set<string>\<close>, kept as the list of its elements in the order
  of insertion, which is the order \<^verbatim>\<open>Array.from\<close> reads them in. The two nested
  \<^verbatim>\<open>forEach\<close> loops that fill it stop at the first \<open>x\<close> whose conversion throws.
\<close>

definition set_add :: "string \<Rightarrow> string list \<Rightarrow> string list" where
  "set_add v acc = (if v \<in> set acc then acc else acc @ [v])"

fun addPoints ::
  "('n \<Rightarrow> string) \<Rightarrow> string list \<Rightarrow> ('n xvalue, 'y) DataPoint list \<Rightarrow> exception + string list" where
  "addPoints str acc [] = Inr acc"
| "addPoints str acc (point # rest) =
     (case xString str (point_x point) of
        Inl e \<Rightarrow> Inl e
      | Inr xValue \<Rightarrow> addPoints str (set_add xValue acc) rest)"

fun addSeries ::
  "('n \<Rightarrow> string) \<Rightarrow> string list \<Rightarrow> ('n xvalue, 'y) DataSeries list \<Rightarrow> exception + string list" where
  "addSeries str acc [] = Inr acc"
| "addSeries str acc (s # rest) =
     (case addPoints str acc (s_data s) of
        Inl e \<Rightarrow> Inl e
      | Inr acc' \<Rightarrow> addSeries str acc' rest)"

definition allXValues ::
  "('n \<Rightarrow> string) \<Rightarrow> ('n xvalue, 'y) DataSeries list \<Rightarrow> exception + string list" where
  "allXValues str ss = addSeries str [] ss"

text \<open>
  The default \<^verbatim>\<open>sort()\<close> compares strings by their code units, as the order on
  \<^typ>\<open>string\<close> does here by character codes.
\<close>

definition sortedXValues ::
  "('n \<Rightarrow> string) \<Rightarrow> ('n xvalue, 'y) DataSeries list \<Rightarrow> exception + string list" where
  "sortedXValues str ss =
     (case allXValues str ss of Inl e \<Rightarrow> Inl e | Inr xs \<Rightarrow> Inr (sort xs))"

text \<open>\<^verbatim>\<open>Array.prototype.join\<close> on an array of strings.\<close>

fun join :: "string \<Rightarrow> string list \<Rightarrow> string" where
  "join sep [] = []"
| "join sep [a] = a"
| "join sep (a # b # rest) = a @ sep @ join sep (b # rest)"

definition newline :: string where
  "newline = [CHR 0x0A]"

definition csvHeader :: "('x, 'y) DataSeries list \<Rightarrow> string" where
  "csvHeader ss = ''Date,'' @ join '','' (map s_label ss) @ newline"

text \<open>
  \<^verbatim>\<open>s.data.find(p => pointX === xValue)\<close>: the first point of the data whose \<open>x\<close>
  converts to \<open>xValue\<close>; a conversion that throws on the way ends the search.
\<close>

fun findPoint ::
  "('n \<Rightarrow> string) \<Rightarrow> string \<Rightarrow> ('n xvalue, 'y) DataPoint list \<Rightarrow>
   exception + ('n xvalue, 'y) DataPoint option" where
  "findPoint str xValue [] = Inr None"
| "findPoint str xValue (p # rest) =
     (case xString str (point_x p) of
        Inl e \<Rightarrow> Inl e
      | Inr pointX \<Rightarrow> if pointX = xValue then Inr (Some p) else findPoint str xValue rest)"

text \<open>
  The array \<open>row\<close> that the loop over the sorted x values builds for one of them: the
  x value, then one cell pushed for each series, \<^verbatim>\<open>point ? String(point.y) : ''\<close>;
  \<open>yStr\<close> is \<^verbatim>\<open>String\<close> on a \<open>y\<close>.
\<close>

definition cell :: "('y \<Rightarrow> string) \<Rightarrow> ('x, 'y) DataPoint option \<Rightarrow> string" where
  "cell yStr point = (case point of Some pt \<Rightarrow> yStr (point_y pt) | None \<Rightarrow> [])"

fun rowCells ::
  "('n \<Rightarrow> string) \<Rightarrow> ('y \<Rightarrow> string) \<Rightarrow> string \<Rightarrow> ('n xvalue, 'y) DataSeries list \<Rightarrow>
   exception + string list" where
  "rowCells str yStr xValue [] = Inr []"
| "rowCells str yStr xValue (s # rest) =
     (case findPoint str xValue (s_data s) of
        Inl e \<Rightarrow> Inl e
      | Inr point \<Rightarrow>
          (case rowCells str yStr xValue rest of
             Inl e \<Rightarrow> Inl e
           | Inr cells \<Rightarrow>
               Inr (cell yStr point # cells)))"

definition csvRow ::
  "('n \<Rightarrow> string) \<Rightarrow> ('y \<Rightarrow> string) \<Rightarrow> ('n xvalue, 'y) DataSeries list \<Rightarrow> string \<Rightarrow>
   exception + string list" where
  "csvRow str yStr ss xValue =
     (case rowCells str yStr xValue ss of Inl e \<Rightarrow> Inl e | Inr cells \<Rightarrow> Inr (xValue # cells))"

text \<open>The rows for a list of x values, in its order.\<close>

fun rowsFor ::
  "('n \<Rightarrow> string) \<Rightarrow> ('y \<Rightarrow> string) \<Rightarrow> ('n xvalue, 'y) DataSeries list \<Rightarrow> string list \<Rightarrow>
   exception + string list list" where
  "rowsFor str yStr ss [] = Inr []"
| "rowsFor str yStr ss (xValue # rest) =
     (case csvRow str yStr ss xValue of
        Inl e \<Rightarrow> Inl e
      | Inr row \<Rightarrow>
          (case rowsFor str yStr ss rest of
             Inl e \<Rightarrow> Inl e
           | Inr rows \<Rightarrow> Inr (row # rows)))"

definition csvRows ::
  "('n \<Rightarrow> string) \<Rightarrow> ('y \<Rightarrow> string) \<Rightarrow> ('n xvalue, 'y) DataSeries list \<Rightarrow>
   exception + string list list" where
  "csvRows str yStr ss =
     (case sortedXValues str ss of Inl e \<Rightarrow> Inl e | Inr xs \<Rightarrow> rowsFor str yStr ss xs)"

text \<open>The text \<open>csv\<close>: the header, then each row joined by commas and ended by a newline.\<close>

definition csvText ::
  "('n \<Rightarrow> string) \<Rightarrow> ('y \<Rightarrow> string) \<Rightarrow> ('n xvalue, 'y) DataSeries list \<Rightarrow> exception + string" where
  "csvText str yStr ss =
     (case csvRows str yStr ss of
        Inl e \<Rightarrow> Inl e
      | Inr rows \<Rightarrow>
          Inr (foldl (\<lambda>csv row. csv @ join '','' row @ newline) (csvHeader ss) rows))"

text \<open>
  The handler is a closure over the properties and the state variables of the
  component; it reads the properties \<open>series\<close>, \<open>title\<close> and \<open>onExport\<close>.
  \<open>today\<close> is \<^verbatim>\<open>format(new Date(), 'yyyy-MM-dd')\<close>. An exception leaves the handler
  before it has done anything: the blob comes after the loops.
\<close>

definition handleExportCSV ::
  "('n \<Rightarrow> string) \<Rightarrow> ('y \<Rightarrow> string) \<Rightarrow> string \<Rightarrow> ('n xvalue, 'y) props \<Rightarrow> state \<Rightarrow>
   exception + effect list" where
  "handleExportCSV str yStr today p st =
     (if length (series p) = 0 then Inr []
      else
        (case csvText str yStr (series p) of
           Inl e \<Rightarrow> Inl e
         | Inr csv \<Rightarrow>
             Inr ([CreateBlob csv,
                   Download (or_string (title p) ''chart-data'' @ ''-'' @ today @ ''.csv'') csv]
                  @ (if onExport p then [Export CSV csv] else []))))"

subsection \<open>The PNG snapshot\<close>


subsection \<open>What is rendered\<close>

text \<open>
  What the component renders: the loading placeholder, the error message, the "no
  data" placeholder (no series, or no series with a point), or else the chart with its
  controls. The three placeholders are early returns, in this order.
\<close>

datatype view = LoadingView | ErrorView | EmptyView | ChartView

definition render :: "('x, 'y) props \<Rightarrow> view" where
  "render p =
     (if loading p then LoadingView
      else if truthy_string (error p) then ErrorView
      else if length (series p) = 0 \<or> (\<forall>s\<in>set (series p). length (s_data s) = 0) then EmptyView
      else ChartView)"

text \<open>
  A click on the Export as CSV button: the button is there only in the chart view and
  with \<open>enableExport\<close>, and its \<^verbatim>\<open>onClick\<close> is the handler.
\<close>

definition exportCSVButton ::
  "('n \<Rightarrow> string) \<Rightarrow> ('y \<Rightarrow> string) \<Rightarrow> string \<Rightarrow> ('n xvalue, 'y) props \<Rightarrow> state \<Rightarrow>
   exception + effect list" where
  "exportCSVButton str yStr today p st =
     (if render p = ChartView \<and> enableExport p then handleExportCSV str yStr today p st
      else Inr [])"

text \<open>
  \<^verbatim>\<open>String(n)\<close> for a number that is a non-negative integer (below \<open>10\<^sup>2\<^sup>1\<close>): its
  decimal digits. The examples below use such numbers for \<open>x\<close> and \<open>y\<close>.
\<close>

function String_nat :: "nat \<Rightarrow> string" where
  "String_nat n =
     (if n < 10 then [char_of (48 + n)]
      else String_nat (n div 10) @ [char_of (48 + n mod 10)])"
  by pat_completeness auto
termination
  by (relation "measure (\<lambda>n. n)") auto

section \<open>Example inputs\<close>

text \<open>A series with the required fields only.\<close>

definition plain_series :: "string \<Rightarrow> string \<Rightarrow> ('x \<times> 'y) list \<Rightarrow> ('x, 'y) DataSeries" where
  "plain_series i l d =
     \<lparr>s_id = i, s_label = l,
      s_data = map (\<lambda>(a, b). \<lparr>point_x = a, point_y = b\<rparr>) d,
      s_color = None, s_hidden = None, s_type = None, s_fill = None, s_tension = None,
      s_borderWidth = None, s_pointRadius = None, s_yAxisID = None\<rparr>"




definition example_theme :: theme where
  "example_theme = \<lparr>primary_main = ''#1976d2'', secondary_main = ''#9c27b0''\<rparr>"

text \<open>A series of one point, and one with a \<^verbatim>\<open>NaN\<close> between two valid points.\<close>

definition single_point_series :: "(nat, number) DataSeries" where
  "single_point_series = plain_series ''a'' ''A'' [(0, Fin 5)]"

definition nan_series :: "(nat, number) DataSeries" where
  "nan_series = plain_series ''a'' ''A'' [(0, Fin 1), (1, NaN), (2, Fin 3)]"

text \<open>Three series, of which the third will not be visible.\<close>

definition three_series :: "(nat, number) DataSeries list" where
  "three_series =
     [plain_series ''waterLevel'' ''waterLevel'' [(0, Fin 3), (1, Fin 4)],
      plain_series ''rainfall'' ''rainfall'' [(0, Fin 7), (1, Fin 5)],
      plain_series ''temperature'' ''temperature'' [(0, Fin 20), (1, Fin 21)]]"

text \<open>Three series of which two have the same id.\<close>

definition twin_series :: "(nat, number) DataSeries list" where
  "twin_series =
     [plain_series ''a'' ''A'' [(0, Fin 1)], plain_series ''a'' ''A2'' [(0, Fin 2)],
      plain_series ''b'' ''B'' [(0, Fin 3)]]"

text \<open>Properties with both callbacks supplied, and the state after mounting on them.\<close>

definition example_props :: "(nat, number) props" where
  "example_props =
     \<lparr>series = three_series, title = None, loading = False, error = None,
      enableExport = True, defaultChartType = Line, onRangeChange = True, onExport = True\<rparr>"

definition mounted_state :: state where
  "mounted_state =
     fst (run example_props [SeriesProp three_series, ChartRef True] (initialState example_props))"


text \<open>
  Series for the export, with small non-negative integers for \<open>x\<close> and \<open>y\<close>:
  \<open>A\<close> at \<open>x = 1, 2\<close> and \<open>B\<close> at \<open>x = 2, 3\<close>; a series at \<open>x = 2, 10\<close>; and a series
  with an invalid date.
\<close>

definition series_A :: "(nat xvalue, nat) DataSeries" where
  "series_A = plain_series ''a'' ''A'' [(XNumber 1, 10), (XNumber 2, 20)]"

definition series_B :: "(nat xvalue, nat) DataSeries" where
  "series_B = plain_series ''b'' ''B'' [(XNumber 2, 30), (XNumber 3, 40)]"

definition series_2_10 :: "(nat xvalue, nat) DataSeries" where
  "series_2_10 = plain_series ''c'' ''C'' [(XNumber 2, 7), (XNumber 10, 5)]"

definition series_bad_date :: "(nat xvalue, nat) DataSeries" where
  "series_bad_date = plain_series ''d'' ''D'' [(XDate (Some ''2024-01-01T00:00:00.000Z''), 1), (XDate None, 2)]"

definition csv_props :: "(nat xvalue, nat) props" where
  "csv_props =
     \<lparr>series = [series_A, series_B], title = None, loading = False, error = None,
      enableExport = True, defaultChartType = Line, onRangeChange = True, onExport = True\<rparr>"

text \<open>The state after mounting on these, then with \<open>B\<close> toggled off, then \<open>A\<close> as well.\<close>

definition csv_state :: state where
  "csv_state = fst (run csv_props [SeriesProp [series_A, series_B], ChartRef True] (initialState csv_props))"

definition only_A_visible :: state where
  "only_A_visible = fst (run csv_props [ClickSeries ''b''] csv_state)"

definition none_visible :: state where
  "none_visible = fst (run csv_props [ClickSeries ''a''] only_A_visible)"


section \<open>Properties of the numbers\<close>

text \<open>
  The binary exponent is the right one, so rounding leaves every double as it is: the
  operations are exact wherever their exact result is a double.
\<close>

declare bits.simps [simp del]

























section \<open>Properties of the trend estimator\<close>











text \<open>
  Over the rationals the denominator of the slope is \<open>n\<^sup>2(n\<^sup>2 - 1)/12\<close>, positive from two
  points on; the residuals of the line of the formula sum to zero, also when weighted by
  the index (the normal equations), so no other line has a smaller sum of squared
  distances from the values: the formula gives the least-squares line.
\<close>

lemma sum_idx: "2 * (\<Sum>i\<leftarrow>[0..<n]. (of_nat i :: rat)) = of_nat n * (of_nat n - 1)"
  by (induction n) (simp_all add: algebra_simps)

lemma sum_idx_sq:
  "6 * (\<Sum>i\<leftarrow>[0..<n]. (of_nat i :: rat) * of_nat i) = (of_nat n - 1) * of_nat n * (2 * of_nat n - 1)"
  by (induction n) (simp_all add: algebra_simps)

lemma denominator_closed:
  "12 * (of_nat n * (\<Sum>i\<leftarrow>[0..<n]. (of_nat i :: rat) * of_nat i) - (\<Sum>i\<leftarrow>[0..<n]. of_nat i)\<^sup>2)
   = (of_nat n)\<^sup>2 * ((of_nat n)\<^sup>2 - 1)"
proof -
  define S where "S = (\<Sum>i\<leftarrow>[0..<n]. (of_nat i :: rat))"
  define Q where "Q = (\<Sum>i\<leftarrow>[0..<n]. (of_nat i :: rat) * of_nat i)"
  define m where "m = (of_nat n :: rat)"
  have s: "2 * S = m * (m - 1)" unfolding S_def m_def by (rule sum_idx)
  have q: "6 * Q = (m - 1) * m * (2 * m - 1)" unfolding Q_def m_def by (rule sum_idx_sq)
  have "12 * (m * Q - S\<^sup>2) = 2 * m * (6 * Q) - 3 * (2 * S)\<^sup>2"
    by (simp add: power2_eq_square algebra_simps)
  also have "\<dots> = m\<^sup>2 * (m\<^sup>2 - 1)"
    unfolding s q by (simp add: power2_eq_square algebra_simps)
  finally show ?thesis unfolding S_def Q_def m_def .
qed

lemma denominator_pos:
  assumes "2 \<le> n"
  shows "0 < of_nat n * (\<Sum>i\<leftarrow>[0..<n]. (of_nat i :: rat) * of_nat i) - (\<Sum>i\<leftarrow>[0..<n]. of_nat i)\<^sup>2"
proof -
  have n1: "(1::rat) < of_nat n" using assms by simp
  then have "(1::rat) < (of_nat n)\<^sup>2"
    by (simp add: power2_eq_square less_1_mult)
  moreover have "(0::rat) < (of_nat n)\<^sup>2"
    using n1 by simp
  ultimately have "0 < (of_nat n :: rat)\<^sup>2 * ((of_nat n)\<^sup>2 - 1)"
    by (intro mult_pos_pos) simp_all
  then have "0 < 12 * (of_nat n * (\<Sum>i\<leftarrow>[0..<n]. (of_nat i :: rat) * of_nat i)
                   - (\<Sum>i\<leftarrow>[0..<n]. of_nat i)\<^sup>2)"
    by (simp only: denominator_closed)
  then show ?thesis
    by (simp only: zero_less_mult_iff) simp
qed

lemma ols_normal_equations:
  assumes "2 \<le> length ys"
  shows "(\<Sum>i\<leftarrow>[0..<length ys]. ys ! i - (ols_slope ys * of_nat i + ols_intercept ys)) = 0"
    and "(\<Sum>i\<leftarrow>[0..<length ys]. of_nat i * (ys ! i - (ols_slope ys * of_nat i + ols_intercept ys))) = 0"
proof -
  define n where "n = length ys"
  define Sx where "Sx = (\<Sum>i\<leftarrow>[0..<n]. (of_nat i :: rat))"
  define Sy where "Sy = (\<Sum>i\<leftarrow>[0..<n]. ys ! i)"
  define Sxy where "Sxy = (\<Sum>i\<leftarrow>[0..<n]. of_nat i * ys ! i)"
  define Sxx where "Sxx = (\<Sum>i\<leftarrow>[0..<n]. (of_nat i :: rat) * of_nat i)"
  define a where "a = ols_slope ys"
  define b where "b = ols_intercept ys"
  define D where "D = of_nat n * Sxx - Sx\<^sup>2"
  have n0: "(of_nat n :: rat) \<noteq> 0" using assms by (auto simp: n_def)
  have D0: "D \<noteq> 0"
    using denominator_pos [of n] assms by (simp add: D_def Sxx_def Sx_def n_def)
  have a_eq: "a * D = of_nat n * Sxy - Sx * Sy"
    using D0 by (simp add: a_def ols_slope_def Let_def D_def Sxx_def Sx_def Sy_def Sxy_def n_def)
  have b_eq: "b * of_nat n = Sy - a * Sx"
    using n0 by (simp add: b_def a_def ols_intercept_def Let_def Sx_def Sy_def n_def)
  have lin1: "(\<Sum>i\<leftarrow>[0..<n]. ys ! i - (a * of_nat i + b)) = Sy - a * Sx - b * of_nat n"
    by (simp add: Sy_def Sx_def sum_list_subtractf sum_list_addf sum_list_const_mult sum_list_triv
        algebra_simps)
  have lin2: "(\<Sum>i\<leftarrow>[0..<n]. of_nat i * (ys ! i - (a * of_nat i + b))) = Sxy - a * Sxx - b * Sx"
    by (simp add: Sxy_def Sxx_def Sx_def sum_list_subtractf sum_list_addf sum_list_const_mult
        sum_list_mult_const algebra_simps)
  show "(\<Sum>i\<leftarrow>[0..<length ys]. ys ! i - (ols_slope ys * of_nat i + ols_intercept ys)) = 0"
    using lin1 b_eq by (simp add: n_def a_def b_def)
  have "of_nat n * (Sxy - a * Sxx - b * Sx) = of_nat n * Sxy - a * (of_nat n * Sxx) - (b * of_nat n) * Sx"
    by (simp add: algebra_simps)
  also have "\<dots> = of_nat n * Sxy - a * (of_nat n * Sxx) - (Sy - a * Sx) * Sx"
    by (simp only: b_eq)
  also have "\<dots> = of_nat n * Sxy - Sx * Sy - a * D"
    by (simp add: D_def power2_eq_square algebra_simps)
  also have "\<dots> = 0" by (simp add: a_eq)
  finally have "Sxy - a * Sxx - b * Sx = 0" using n0 by simp
  then show "(\<Sum>i\<leftarrow>[0..<length ys]. of_nat i * (ys ! i - (ols_slope ys * of_nat i + ols_intercept ys))) = 0"
    using lin2 by (simp add: n_def a_def b_def)
qed

lemma ols_minimises:
  assumes "2 \<le> length ys"
  shows "sq_error ys (ols_slope ys) (ols_intercept ys) \<le> sq_error ys a b"
proof -
  define n where "n = length ys"
  define a0 where "a0 = ols_slope ys"
  define b0 where "b0 = ols_intercept ys"
  define r where "r = (\<lambda>i. ys ! i - (a0 * of_nat i + b0))"
  define d where "d = (\<lambda>i::nat. (a0 - a) * of_nat i + (b0 - b))"
  have r0: "(\<Sum>i\<leftarrow>[0..<n]. r i) = 0" and r1: "(\<Sum>i\<leftarrow>[0..<n]. of_nat i * r i) = 0"
    using ols_normal_equations [OF assms] by (simp_all add: r_def a0_def b0_def n_def)
  have cross: "(\<Sum>i\<leftarrow>[0..<n]. r i * d i) = 0"
  proof -
    have "(\<Sum>i\<leftarrow>[0..<n]. r i * d i)
          = (\<Sum>i\<leftarrow>[0..<n]. (a0 - a) * (of_nat i * r i) + (b0 - b) * r i)"
      by (simp add: d_def algebra_simps)
    also have "\<dots> = (a0 - a) * (\<Sum>i\<leftarrow>[0..<n]. of_nat i * r i) + (b0 - b) * (\<Sum>i\<leftarrow>[0..<n]. r i)"
      by (simp add: sum_list_addf sum_list_const_mult)
    finally show ?thesis by (simp add: r0 r1)
  qed
  have e1: "(\<Sum>i\<leftarrow>[0..<n]. (r i)\<^sup>2) = sq_error ys a0 b0"
    by (simp add: sq_error_def r_def n_def)
  have "sq_error ys a b = (\<Sum>i\<leftarrow>[0..<n]. (r i + d i)\<^sup>2)"
    unfolding sq_error_def n_def r_def d_def
    by (rule arg_cong [where f = sum_list], rule map_cong) (simp_all add: algebra_simps)
  also have "\<dots> = (\<Sum>i\<leftarrow>[0..<n]. (r i)\<^sup>2 + (2 * (r i * d i) + (d i)\<^sup>2))"
    by (simp add: power2_eq_square algebra_simps)
  also have "\<dots> = (\<Sum>i\<leftarrow>[0..<n]. (r i)\<^sup>2) + (2 * (\<Sum>i\<leftarrow>[0..<n]. r i * d i) + (\<Sum>i\<leftarrow>[0..<n]. (d i)\<^sup>2))"
    by (simp add: sum_list_addf sum_list_const_mult)
  also have "\<dots> = sq_error ys a0 b0 + (\<Sum>i\<leftarrow>[0..<n]. (d i)\<^sup>2)"
    by (simp add: cross e1)
  finally have "sq_error ys a b = sq_error ys a0 b0 + (\<Sum>i\<leftarrow>[0..<n]. (d i)\<^sup>2)" .
  moreover have "0 \<le> (\<Sum>i\<leftarrow>[0..<n]. (d i)\<^sup>2)"
    by (rule sum_list_nonneg) auto
  ultimately show ?thesis
    by (simp add: a0_def b0_def)
qed

subsection \<open>Where the doubles leave the least-squares line\<close>











section \<open>Properties of the render model\<close>

text \<open>
  \<open>chartData\<close> is a total function without a failing branch: building the render
  model raises no exception, whatever the series hold.
\<close>

subsection \<open>Short series\<close>

text \<open>
  C3, as claimed, fails: with the trend line enabled, a visible series of one point has
  a trend dataset in the render model, whose data is empty.
\<close>

theorem trend_dataset_present_counterexample:
  "length (s_data single_point_series) < 2
   \<and> chartData example_theme Line True [''a''] [single_point_series]
       = [primaryDataset example_theme Line single_point_series,
          trendDataset example_theme single_point_series]
   \<and> d_label (trendDataset example_theme single_point_series) = ''A (Trend)''
   \<and> d_data (trendDataset example_theme single_point_series) = []"
  by (simp add: chartData_def trendDataset_def calculateTrendline_def single_point_series_def
      plain_series_def)

lemma trendDataset_data: "d_data (trendDataset th s) = calculateTrendline (s_data s)"
  by (simp add: trendDataset_def Let_def)

lemma trendDataset_label: "d_label (trendDataset th s) = s_label s @ '' (Trend)''"
  by (simp add: trendDataset_def Let_def)

lemma trendDataset_in_chartData:
  "s \<in> set ss \<Longrightarrow> s_id s \<in> set vs \<Longrightarrow> trendDataset th s \<in> set (chartData th ct True vs ss)"
  by (simp add: chartData_def)

lemma primaryDataset_in_chartData:
  "s \<in> set ss \<Longrightarrow> s_id s \<in> set vs \<Longrightarrow> primaryDataset th ct s \<in> set (chartData th ct tr vs ss)"
  by (simp add: chartData_def)

text \<open>
  C3, amended. For data of fewer than two points \<open>calculateTrendline\<close> returns the
  empty list; and with the trend line enabled, the render model holds, for each visible
  series of fewer than two points, the trend dataset of that series, labelled
  \<open>{label} (Trend)\<close>, with empty data.
\<close>

theorem short_series_empty_trend:
  "(length data < 2 \<longrightarrow> calculateTrendline data = [])
   \<and> (s \<in> set ss \<and> s_id s \<in> set vs \<and> length (s_data s) < 2 \<longrightarrow>
        trendDataset th s \<in> set (chartData th ct True vs ss)
        \<and> d_label (trendDataset th s) = s_label s @ '' (Trend)''
        \<and> d_data (trendDataset th s) = [])"
  by (simp add: trendDataset_in_chartData trendDataset_label trendDataset_data
      calculateTrendline_def)

theorem short_series_empty_trend_witness:
  "length (s_data single_point_series) < 2
   \<and> single_point_series \<in> set [single_point_series]
   \<and> s_id single_point_series \<in> set [''a'']
   \<and> calculateTrendline (s_data single_point_series) = []
   \<and> trendDataset example_theme single_point_series
       \<in> set (chartData example_theme Line True [''a''] [single_point_series])
   \<and> d_label (trendDataset example_theme single_point_series) = ''A (Trend)''
   \<and> d_data (trendDataset example_theme single_point_series) = []"
proof -
  have a: "length (s_data single_point_series) < 2"
    by (simp add: single_point_series_def plain_series_def)
  have b: "single_point_series \<in> set [single_point_series]" by simp
  have c: "s_id single_point_series \<in> set [''a'']"
    by (simp add: single_point_series_def plain_series_def)
  have l: "s_label single_point_series = ''A''"
    by (simp add: single_point_series_def plain_series_def)
  note t = short_series_empty_trend [of "s_data single_point_series" single_point_series
      "[single_point_series]" "[''a'']" example_theme Line]
  from t a have "calculateTrendline (s_data single_point_series) = []" by blast
  moreover from t a b c have
    "trendDataset example_theme single_point_series
       \<in> set (chartData example_theme Line True [''a''] [single_point_series])
     \<and> d_label (trendDataset example_theme single_point_series) = s_label single_point_series @ '' (Trend)''
     \<and> d_data (trendDataset example_theme single_point_series) = []"
    by blast
  ultimately show ?thesis using a b c l by simp
qed

subsection \<open>Non-finite values\<close>

lemma primaryDataset_data: "d_data (primaryDataset th ct s) = s_data s"
  by (simp add: primaryDataset_def map_idI)

text \<open>
  C7, as claimed, fails: the dataset of a visible series with a \<^verbatim>\<open>NaN\<close> between two
  valid points holds all three points, the \<^verbatim>\<open>NaN\<close> among them.
\<close>

theorem nan_point_kept_counterexample:
  "map d_data (chartData example_theme Line False [''a''] [nan_series])
   = [[\<lparr>point_x = 0, point_y = Fin 1\<rparr>, \<lparr>point_x = 1, point_y = NaN\<rparr>,
       \<lparr>point_x = 2, point_y = Fin 3\<rparr>]]"
  by (simp add: chartData_def primaryDataset_def nan_series_def plain_series_def)

text \<open>
  C7, amended. The render model holds the primary dataset of every visible series, and
  the data of that dataset is the data of the series: every point in its place, each
  \<open>y\<close> as it came, so a non-finite \<open>y\<close> stays non-finite and is not turned into zero.
  Leaving the point out as a gap is up to the drawing library.
\<close>

theorem primary_dataset_keeps_every_point:
  "s \<in> set ss \<and> s_id s \<in> set vs \<longrightarrow>
     primaryDataset th ct s \<in> set (chartData th ct tr vs ss)
     \<and> d_data (primaryDataset th ct s) = s_data s"
  by (simp add: primaryDataset_in_chartData primaryDataset_data)

theorem primary_dataset_keeps_every_point_witness:
  "nan_series \<in> set [nan_series] \<and> s_id nan_series \<in> set [''a'']
   \<and> primaryDataset example_theme Line nan_series
       \<in> set (chartData example_theme Line False [''a''] [nan_series])
   \<and> map point_y (d_data (primaryDataset example_theme Line nan_series)) = [Fin 1, NaN, Fin 3]"
proof -
  have b: "nan_series \<in> set [nan_series]" by simp
  have c: "s_id nan_series \<in> set [''a'']"
    by (simp add: nan_series_def plain_series_def)
  have d: "map point_y (s_data nan_series) = [Fin 1, NaN, Fin 3]"
    by (simp add: nan_series_def plain_series_def)
  from primary_dataset_keeps_every_point [of nan_series "[nan_series]" "[''a'']" example_theme Line False] b c
  have "primaryDataset example_theme Line nan_series
       \<in> set (chartData example_theme Line False [''a''] [nan_series])
     \<and> d_data (primaryDataset example_theme Line nan_series) = s_data nan_series"
    by blast
  then show ?thesis using b c d by simp
qed

subsection \<open>Visibility\<close>

lemma chartData_filter_idem:
  "chartData th ct tr vs (filter (\<lambda>s. s_id s \<in> set vs) ss) = chartData th ct tr vs ss"
  by (simp add: chartData_def)

lemma chartData_elem:
  assumes "d \<in> set (chartData th ct tr vs ss)"
  shows "\<exists>s\<in>set ss. s_id s \<in> set vs \<and> (d = primaryDataset th ct s \<or> tr \<and> d = trendDataset th s)"
  using assms by (auto simp: chartData_def split: if_splits)

text \<open>
  C5. Whatever the visible-series list and the series are, every dataset of the render
  model, primary or trend, is the dataset of a series whose id is in the visible-series
  list; the render model is the one of the visible series alone, so a series that is
  not visible has no part in it; and there are one or two datasets for each visible
  series, as the trend line is off or on. (A dataset carries no id: it belongs to a
  series as the object that \<open>chartData\<close> builds from it.)
\<close>

theorem chartData_only_visible:
  "(\<forall>d\<in>set (chartData th ct tr vs ss).
      \<exists>s\<in>set ss. s_id s \<in> set vs \<and> (d = primaryDataset th ct s \<or> tr \<and> d = trendDataset th s))
   \<and> chartData th ct tr vs ss = chartData th ct tr vs (filter (\<lambda>s. s_id s \<in> set vs) ss)
   \<and> length (chartData th ct tr vs ss)
       = (if tr then 2 else 1) * length (filter (\<lambda>s. s_id s \<in> set vs) ss)"
proof (intro conjI ballI)
  fix d assume "d \<in> set (chartData th ct tr vs ss)"
  then show "\<exists>s\<in>set ss. s_id s \<in> set vs \<and> (d = primaryDataset th ct s \<or> tr \<and> d = trendDataset th s)"
    by (rule chartData_elem)
next
  show "chartData th ct tr vs ss = chartData th ct tr vs (filter (\<lambda>s. s_id s \<in> set vs) ss)"
    by (simp add: chartData_filter_idem)
next
  show "length (chartData th ct tr vs ss)
       = (if tr then 2 else 1) * length (filter (\<lambda>s. s_id s \<in> set vs) ss)"
    by (simp add: chartData_def)
qed


text \<open>
  Three series, the third toggled off, the trend line on: four datasets, none of the
  third series.
\<close>

theorem chartData_only_visible_witness:
  "trendDataset example_theme (three_series ! 1)
     \<in> set (chartData example_theme Line True [''waterLevel'', ''rainfall''] three_series)
   \<and> (\<exists>s\<in>set three_series. s_id s \<in> set [''waterLevel'', ''rainfall'']
        \<and> (trendDataset example_theme (three_series ! 1) = primaryDataset example_theme Line s
           \<or> True \<and> trendDataset example_theme (three_series ! 1) = trendDataset example_theme s))
   \<and> map d_label (chartData example_theme Line True [''waterLevel'', ''rainfall''] three_series)
       = [''waterLevel'', ''rainfall'', ''waterLevel (Trend)'', ''rainfall (Trend)'']
   \<and> length (chartData example_theme Line True [''waterLevel'', ''rainfall''] three_series) = 4"
proof -
  note t = chartData_only_visible [of example_theme Line True "[''waterLevel'', ''rainfall'']" three_series]
  have m: "trendDataset example_theme (three_series ! 1)
     \<in> set (chartData example_theme Line True [''waterLevel'', ''rainfall''] three_series)"
    by (rule trendDataset_in_chartData) (simp_all add: three_series_def plain_series_def)
  from t m have e: "\<exists>s\<in>set three_series. s_id s \<in> set [''waterLevel'', ''rainfall'']
        \<and> (trendDataset example_theme (three_series ! 1) = primaryDataset example_theme Line s
           \<or> True \<and> trendDataset example_theme (three_series ! 1) = trendDataset example_theme s)"
    by blast
  have f: "filter (\<lambda>s. s_id s \<in> set [''waterLevel'', ''rainfall'']) three_series
           = [three_series ! 0, three_series ! 1]"
    by (simp add: three_series_def plain_series_def)
  from t have "chartData example_theme Line True [''waterLevel'', ''rainfall''] three_series
     = chartData example_theme Line True [''waterLevel'', ''rainfall'']
         (filter (\<lambda>s. s_id s \<in> set [''waterLevel'', ''rainfall'']) three_series)"
    by blast
  then have l: "map d_label (chartData example_theme Line True [''waterLevel'', ''rainfall''] three_series)
       = [''waterLevel'', ''rainfall'', ''waterLevel (Trend)'', ''rainfall (Trend)'']"
    unfolding f
    by (simp add: chartData_def trendDataset_label primaryDataset_def three_series_def plain_series_def)
  from t have "length (chartData example_theme Line True [''waterLevel'', ''rainfall''] three_series)
       = (if True then 2 else 1) * length (filter (\<lambda>s. s_id s \<in> set [''waterLevel'', ''rainfall'']) three_series)"
    by blast
  then have n: "length (chartData example_theme Line True [''waterLevel'', ''rainfall''] three_series) = 4"
    unfolding f by simp
  show ?thesis using m e l n by blast
qed

section \<open>Properties of the interaction controller\<close>

lemma mounted_state_eq:
  "mounted_state =
     \<lparr>chartType = Line, showTrendline = False, showSettings = False,
      visibleSeries = [''waterLevel'', ''rainfall'', ''temperature''],
      chartInstance = True, isZoomed = False\<rparr>"
  by (simp add: mounted_state_def initialState_def example_props_def initVisibleSeries_def
      onChartRef_def three_series_def plain_series_def)

subsection \<open>Toggling a series\<close>

lemma toggle_visible:
  "visibleSeries (handleSeriesToggle i st) =
     (if i \<in> set (visibleSeries st) then filter (\<lambda>id. id \<noteq> i) (visibleSeries st)
      else visibleSeries st @ [i])"
  by (simp add: handleSeriesToggle_def Let_def)

lemma toggle_member_self:
  "i \<in> set (visibleSeries (handleSeriesToggle i st)) \<longleftrightarrow> i \<notin> set (visibleSeries st)"
  by (simp add: toggle_visible)

lemma toggle_member_other:
  "j \<noteq> i \<Longrightarrow> j \<in> set (visibleSeries (handleSeriesToggle i st)) \<longleftrightarrow> j \<in> set (visibleSeries st)"
  by (auto simp: toggle_visible)

lemma chartData_cong_ids:
  assumes "\<forall>s\<in>set ss. s_id s \<in> set vs \<longleftrightarrow> s_id s \<in> set vs'"
  shows "chartData th ct tr vs ss = chartData th ct tr vs' ss"
proof -
  have "filter (\<lambda>s. s_id s \<in> set vs) ss = filter (\<lambda>s. s_id s \<in> set vs') ss"
    using assms by (intro filter_cong) auto
  then show ?thesis by (simp add: chartData_def)
qed

lemma toggle_unknown_chartData:
  assumes "i \<notin> s_id ` set ss"
  shows "chartData th ct tr (visibleSeries (handleSeriesToggle i st)) ss
         = chartData th ct tr (visibleSeries st) ss"
proof (rule chartData_cong_ids, rule ballI)
  fix s assume "s \<in> set ss"
  with assms have "s_id s \<noteq> i" by auto
  then show "s_id s \<in> set (visibleSeries (handleSeriesToggle i st)) \<longleftrightarrow> s_id s \<in> set (visibleSeries st)"
    by (rule toggle_member_other)
qed

text \<open>
  C6, as claimed, fails: toggling an id that no series has adds it to the
  visible-series list.
\<close>

theorem toggle_unknown_changes_state_counterexample:
  "''ghost'' \<notin> s_id ` set three_series
   \<and> visibleSeries mounted_state = [''waterLevel'', ''rainfall'', ''temperature'']
   \<and> visibleSeries (handleSeriesToggle ''ghost'' mounted_state)
       = [''waterLevel'', ''rainfall'', ''temperature'', ''ghost'']"
  by (simp add: mounted_state_eq toggle_visible three_series_def plain_series_def)

text \<open>
  C6, amended. \<open>handleSeriesToggle\<close> is total (it raises nothing) and does not look at
  the series: for every id, known or not, it flips the membership of that id in the
  visible-series list, leaves the membership of every other id and every other state
  variable as they are; and toggling an id that no supplied series has leaves the
  render model unchanged.
\<close>

theorem toggle_flips_membership:
  "(i \<in> set (visibleSeries (handleSeriesToggle i st)) \<longleftrightarrow> i \<notin> set (visibleSeries st))
   \<and> (\<forall>j. j \<noteq> i \<longrightarrow>
         (j \<in> set (visibleSeries (handleSeriesToggle i st)) \<longleftrightarrow> j \<in> set (visibleSeries st)))
   \<and> handleSeriesToggle i st = st\<lparr>visibleSeries := visibleSeries (handleSeriesToggle i st)\<rparr>
   \<and> (i \<notin> s_id ` set ss \<longrightarrow>
         chartData th ct tr (visibleSeries (handleSeriesToggle i st)) ss
         = chartData th ct tr (visibleSeries st) ss)"
proof (intro conjI allI impI)
  show "i \<in> set (visibleSeries (handleSeriesToggle i st)) \<longleftrightarrow> i \<notin> set (visibleSeries st)"
    by (rule toggle_member_self)
next
  fix j assume "j \<noteq> i"
  then show "j \<in> set (visibleSeries (handleSeriesToggle i st)) \<longleftrightarrow> j \<in> set (visibleSeries st)"
    by (rule toggle_member_other)
next
  show "handleSeriesToggle i st = st\<lparr>visibleSeries := visibleSeries (handleSeriesToggle i st)\<rparr>"
    by (simp add: handleSeriesToggle_def)
next
  assume "i \<notin> s_id ` set ss"
  then show "chartData th ct tr (visibleSeries (handleSeriesToggle i st)) ss
         = chartData th ct tr (visibleSeries st) ss"
    by (rule toggle_unknown_chartData)
qed

theorem toggle_flips_membership_witness:
  "''ghost'' \<notin> s_id ` set three_series
   \<and> ''rainfall'' \<noteq> ''ghost''
   \<and> ''ghost'' \<in> set (visibleSeries (handleSeriesToggle ''ghost'' mounted_state))
   \<and> ''rainfall'' \<in> set (visibleSeries (handleSeriesToggle ''ghost'' mounted_state))
   \<and> ''temperature'' \<notin> set (visibleSeries (handleSeriesToggle ''temperature'' mounted_state))
   \<and> chartData example_theme Line True (visibleSeries (handleSeriesToggle ''ghost'' mounted_state)) three_series
       = chartData example_theme Line True (visibleSeries mounted_state) three_series"
proof -
  have a: "''ghost'' \<notin> s_id ` set three_series"
    by (simp add: three_series_def plain_series_def)
  have b: "''rainfall'' \<noteq> ''ghost''" by simp
  have c: "''ghost'' \<notin> set (visibleSeries mounted_state)"
    by (simp add: mounted_state_eq)
  have d: "''rainfall'' \<in> set (visibleSeries mounted_state)"
    by (simp add: mounted_state_eq)
  have e: "''temperature'' \<in> set (visibleSeries mounted_state)"
    by (simp add: mounted_state_eq)
  note t = toggle_flips_membership [of "''ghost''" mounted_state three_series example_theme Line True]
  note u = toggle_flips_membership [of "''temperature''" mounted_state three_series example_theme Line True]
  have t1: "''ghost'' \<in> set (visibleSeries (handleSeriesToggle ''ghost'' mounted_state))"
    using conjunct1 [OF t] c by (rule iffD2)
  have "''rainfall'' \<noteq> ''ghost'' \<longrightarrow>
      (''rainfall'' \<in> set (visibleSeries (handleSeriesToggle ''ghost'' mounted_state))
       \<longleftrightarrow> ''rainfall'' \<in> set (visibleSeries mounted_state))"
    using conjunct1 [OF conjunct2 [OF t]] by (rule spec)
  then have "''rainfall'' \<in> set (visibleSeries (handleSeriesToggle ''ghost'' mounted_state))
       \<longleftrightarrow> ''rainfall'' \<in> set (visibleSeries mounted_state)"
    using b by (rule mp)
  then have t2: "''rainfall'' \<in> set (visibleSeries (handleSeriesToggle ''ghost'' mounted_state))"
    using d by (rule iffD2)
  have u1: "''temperature'' \<notin> set (visibleSeries (handleSeriesToggle ''temperature'' mounted_state))"
  proof
    assume "''temperature'' \<in> set (visibleSeries (handleSeriesToggle ''temperature'' mounted_state))"
    with conjunct1 [OF u] have "''temperature'' \<notin> set (visibleSeries mounted_state)"
      by (rule iffD1)
    then show False using e by (rule notE)
  qed
  have t4: "chartData example_theme Line True (visibleSeries (handleSeriesToggle ''ghost'' mounted_state)) three_series
       = chartData example_theme Line True (visibleSeries mounted_state) three_series"
    using conjunct2 [OF conjunct2 [OF conjunct2 [OF t]]] a by (rule mp)
  show ?thesis
    by (intro conjI a b t1 t2 u1 t4)
qed

subsection \<open>Toggling twice; no duplicates\<close>

lemma toggle_twice_set:
  "set (visibleSeries (handleSeriesToggle i (handleSeriesToggle i st))) = set (visibleSeries st)"
  by (auto simp: toggle_visible)

lemma toggle_distinct:
  "distinct (visibleSeries st) \<Longrightarrow> distinct (visibleSeries (handleSeriesToggle i st))"
  by (simp add: toggle_visible)

lemma initVisibleSeries_distinct:
  assumes "distinct (map s_id ss)" and "distinct (visibleSeries st)"
  shows "distinct (visibleSeries (initVisibleSeries ss st))"
  using assms by (simp add: initVisibleSeries_def distinct_map_filter)

lemma step_distinct:
  assumes "\<forall>ss. e = SeriesProp ss \<longrightarrow> distinct (map s_id ss)"
    and "distinct (visibleSeries st)"
  shows "distinct (visibleSeries (fst (step p e st)))"
proof (cases e)
  case (SeriesProp ss)
  with assms show ?thesis by (simp add: initVisibleSeries_distinct)
next
  case (ClickSeries i)
  with assms show ?thesis by (simp add: toggle_distinct)
qed (use assms in \<open>simp_all add: onChartRef_def handleChartTypeChange_def handleTrendlineToggle_def
    resetZoomButton_def handleResetZoom_def handleZoomIn_def handleZoomOut_def onPanComplete_def
    onZoomComplete_def\<close>)

lemma run_distinct:
  assumes "\<forall>ss. SeriesProp ss \<in> set evs \<longrightarrow> distinct (map s_id ss)"
    and "distinct (visibleSeries st)"
  shows "distinct (visibleSeries (fst (run p evs st)))"
  using assms
proof (induction evs arbitrary: st)
  case Nil
  then show ?case by simp
next
  case (Cons e es)
  have "distinct (visibleSeries (fst (step p e st)))"
    using Cons.prems by (intro step_distinct) auto
  then have "distinct (visibleSeries (fst (run p es (fst (step p e st)))))"
    using Cons.prems by (intro Cons.IH) auto
  then show ?case
    by (simp add: split_beta)
qed

text \<open>
  C10, as claimed, fails: the component does not make the ids of the series unique, and
  mounting on series with the ids \<open>a, a, b\<close> puts \<open>a\<close> into the visible-series list
  twice.
\<close>

theorem duplicate_ids_counterexample:
  "map s_id twin_series = [''a'', ''a'', ''b'']
   \<and> visibleSeries (fst (run example_props [SeriesProp twin_series] (initialState example_props)))
       = [''a'', ''a'', ''b'']
   \<and> \<not> distinct (visibleSeries
         (fst (run example_props [SeriesProp twin_series] (initialState example_props))))"
  by (simp add: initialState_def initVisibleSeries_def twin_series_def plain_series_def)

text \<open>
  C10, amended. Toggling the same id twice gives a visible-series list with the members
  of the original one, from any state. And the list holds no id twice provided the
  series supplied do not: after any run of events from the initial state in which every
  \<open>series\<close> property supplied has unique ids, the visible-series list is distinct.
\<close>

theorem toggle_twice_same_members_no_duplicates:
  "set (visibleSeries (handleSeriesToggle i (handleSeriesToggle i st))) = set (visibleSeries st)
   \<and> ((\<forall>ss. SeriesProp ss \<in> set evs \<longrightarrow> distinct (map s_id ss)) \<longrightarrow>
        distinct (visibleSeries (fst (run p evs (initialState p)))))"
proof (intro conjI impI)
  show "set (visibleSeries (handleSeriesToggle i (handleSeriesToggle i st))) = set (visibleSeries st)"
    by (rule toggle_twice_set)
next
  assume "\<forall>ss. SeriesProp ss \<in> set evs \<longrightarrow> distinct (map s_id ss)"
  then show "distinct (visibleSeries (fst (run p evs (initialState p))))"
    by (rule run_distinct) (simp add: initialState_def)
qed


theorem toggle_twice_same_members_no_duplicates_witness:
  "distinct (map s_id three_series)
   \<and> set (visibleSeries (handleSeriesToggle ''rainfall'' (handleSeriesToggle ''rainfall'' mounted_state)))
       = set [''waterLevel'', ''rainfall'', ''temperature'']
   \<and> visibleSeries (fst (run example_props
         [SeriesProp three_series, ClickSeries ''rainfall'', ClickSeries ''rainfall'']
         (initialState example_props)))
       = [''waterLevel'', ''temperature'', ''rainfall'']
   \<and> distinct (visibleSeries (fst (run example_props
         [SeriesProp three_series, ClickSeries ''rainfall'', ClickSeries ''rainfall'']
         (initialState example_props))))"
proof -
  have a: "distinct (map s_id three_series)"
    by (simp add: three_series_def plain_series_def)
  then have h: "\<forall>ss. SeriesProp ss \<in> set [SeriesProp three_series, ClickSeries ''rainfall'', ClickSeries ''rainfall'']
      \<longrightarrow> distinct (map s_id ss)"
    by simp
  note t = toggle_twice_same_members_no_duplicates [of "''rainfall''" mounted_state
      "[SeriesProp three_series, ClickSeries ''rainfall'', ClickSeries ''rainfall'']" example_props]
  have m: "visibleSeries mounted_state = [''waterLevel'', ''rainfall'', ''temperature'']"
    by (simp add: mounted_state_eq)
  have b: "set (visibleSeries (handleSeriesToggle ''rainfall'' (handleSeriesToggle ''rainfall'' mounted_state)))
       = set [''waterLevel'', ''rainfall'', ''temperature'']"
    using conjunct1 [OF t] by (simp only: m)
  have c: "distinct (visibleSeries (fst (run example_props
         [SeriesProp three_series, ClickSeries ''rainfall'', ClickSeries ''rainfall'']
         (initialState example_props))))"
    using conjunct2 [OF t] h by (rule mp)
  have d: "visibleSeries (fst (run example_props
         [SeriesProp three_series, ClickSeries ''rainfall'', ClickSeries ''rainfall'']
         (initialState example_props)))
       = [''waterLevel'', ''temperature'', ''rainfall'']"
    by (simp add: initialState_def example_props_def initVisibleSeries_def three_series_def
        plain_series_def toggle_visible)
  show ?thesis
    by (intro conjI a b c d)
qed

subsection \<open>Reset zoom\<close>

lemma onZoomComplete_eq:
  "onZoomComplete p lo hi st =
     (st\<lparr>isZoomed := True\<rparr>,
      if onRangeChange p then [RangeChange \<lparr>range_start = Some lo, range_end = Some hi\<rparr>] else [])"
  by (simp add: onZoomComplete_def)








section \<open>Properties of the export engine\<close>

subsection \<open>The x values\<close>

lemma exception_eq: "(e :: exception) = RangeError"
  by (cases e) simp

lemma xString_valid: "x \<noteq> XDate None \<Longrightarrow> \<exists>k. xString str x = Inr k"
  by (cases "(str, x)" rule: xString.cases) simp_all

lemma xString_xValueOf:
  "point_x p \<noteq> XDate None \<Longrightarrow> xString str (point_x p) = Inr (xValueOf str p)"
  using xString_valid [of "point_x p" str] by (auto simp: xValueOf_def)

lemma xString_invalid: "xString str (XDate None) = Inl RangeError"
  by simp

lemma set_set_add: "set (set_add v acc) = insert v (set acc)"
  by (auto simp: set_add_def)

lemma distinct_set_add: "distinct acc \<Longrightarrow> distinct (set_add v acc)"
  by (simp add: set_add_def)

lemma addPoints_valid:
  assumes "\<forall>p\<in>set ps. point_x p \<noteq> XDate None"
  shows "\<exists>acc'. addPoints str acc ps = Inr acc'
           \<and> set acc' = set acc \<union> xValueOf str ` set ps
           \<and> (distinct acc \<longrightarrow> distinct acc')"
  using assms
proof (induction ps arbitrary: acc)
  case Nil
  then show ?case by simp
next
  case (Cons p ps)
  then have x: "xString str (point_x p) = Inr (xValueOf str p)"
    by (simp add: xString_xValueOf)
  from Cons.prems have "\<forall>p\<in>set ps. point_x p \<noteq> XDate None" by simp
  from Cons.IH [OF this, of "set_add (xValueOf str p) acc"]
  obtain acc' where a: "addPoints str (set_add (xValueOf str p) acc) ps = Inr acc'"
    "set acc' = set (set_add (xValueOf str p) acc) \<union> xValueOf str ` set ps"
    "distinct (set_add (xValueOf str p) acc) \<longrightarrow> distinct acc'"
    by blast
  show ?case
    using a by (auto simp: x set_set_add distinct_set_add)
qed

lemma addPoints_invalid:
  assumes "\<exists>p\<in>set ps. point_x p = XDate None"
  shows "addPoints str acc ps = Inl RangeError"
  using assms
proof (induction ps arbitrary: acc)
  case Nil
  then show ?case by simp
next
  case (Cons p ps)
  show ?case
  proof (cases "point_x p = XDate None")
    case True
    then show ?thesis by simp
  next
    case False
    then have x: "xString str (point_x p) = Inr (xValueOf str p)"
      by (rule xString_xValueOf)
    from False Cons.prems have "\<exists>p\<in>set ps. point_x p = XDate None" by simp
    from Cons.IH [OF this] show ?thesis by (simp add: x)
  qed
qed

lemma addSeries_valid:
  assumes "validDates ss"
  shows "\<exists>acc'. addSeries str acc ss = Inr acc'
           \<and> set acc' = set acc \<union> (\<Union>s\<in>set ss. xValueOf str ` set (s_data s))
           \<and> (distinct acc \<longrightarrow> distinct acc')"
  using assms
proof (induction ss arbitrary: acc)
  case Nil
  then show ?case by simp
next
  case (Cons s ss)
  then have "\<forall>p\<in>set (s_data s). point_x p \<noteq> XDate None" and v: "validDates ss"
    by (simp_all add: validDates_def)
  from addPoints_valid [OF this(1), of str acc]
  obtain acc1 where a: "addPoints str acc (s_data s) = Inr acc1"
    "set acc1 = set acc \<union> xValueOf str ` set (s_data s)" "distinct acc \<longrightarrow> distinct acc1"
    by blast
  from Cons.IH [OF v, of acc1]
  obtain acc' where b: "addSeries str acc1 ss = Inr acc'"
    "set acc' = set acc1 \<union> (\<Union>s\<in>set ss. xValueOf str ` set (s_data s))"
    "distinct acc1 \<longrightarrow> distinct acc'"
    by blast
  show ?case
    using a b by auto
qed

lemma addSeries_invalid:
  assumes "\<not> validDates ss"
  shows "addSeries str acc ss = Inl RangeError"
  using assms
proof (induction ss arbitrary: acc)
  case Nil
  then show ?case by (simp add: validDates_def)
next
  case (Cons s ss)
  show ?case
  proof (cases "\<exists>p\<in>set (s_data s). point_x p = XDate None")
    case True
    then show ?thesis by (simp add: addPoints_invalid)
  next
    case False
    then have "\<forall>p\<in>set (s_data s). point_x p \<noteq> XDate None" by simp
    from addPoints_valid [OF this, of str acc]
    obtain acc1 where a: "addPoints str acc (s_data s) = Inr acc1" by blast
    from False Cons.prems have "\<not> validDates ss" by (simp add: validDates_def)
    from Cons.IH [OF this] show ?thesis by (simp add: a)
  qed
qed

lemma sortedXValues_valid:
  assumes "validDates ss"
  shows "\<exists>xs. sortedXValues str ss = Inr xs \<and> sorted_wrt (<) xs
           \<and> set xs = (\<Union>s\<in>set ss. xValueOf str ` set (s_data s))"
proof -
  from addSeries_valid [OF assms, of str "[]"]
  obtain acc where a: "addSeries str [] ss = Inr acc"
    "set acc = (\<Union>s\<in>set ss. xValueOf str ` set (s_data s))" "distinct acc"
    by auto
  then show ?thesis
    by (simp add: sortedXValues_def allXValues_def strict_sorted_iff)
qed

lemma sortedXValues_invalid:
  "\<not> validDates ss \<Longrightarrow> sortedXValues str ss = Inl RangeError"
  by (simp add: sortedXValues_def allXValues_def addSeries_invalid)

subsection \<open>The rows\<close>

lemma findPoint_valid:
  assumes "\<forall>p\<in>set ps. point_x p \<noteq> XDate None"
  shows "findPoint str k ps = Inr (find (\<lambda>p. xValueOf str p = k) ps)"
  using assms by (induction ps) (simp_all add: xString_xValueOf)

lemma rowCells_valid:
  assumes "validDates ss"
  shows "rowCells str yStr k ss
         = Inr (map (\<lambda>s. cell yStr (find (\<lambda>p. xValueOf str p = k) (s_data s))) ss)"
  using assms
proof (induction ss)
  case Nil
  then show ?case by simp
next
  case (Cons s ss)
  then have "\<forall>p\<in>set (s_data s). point_x p \<noteq> XDate None" and v: "validDates ss"
    by (simp_all add: validDates_def)
  then show ?case
    using Cons.IH [OF v] by (simp add: findPoint_valid)
qed

lemma csvRow_valid:
  "validDates ss \<Longrightarrow>
   csvRow str yStr ss k
   = Inr (k # map (\<lambda>s. cell yStr (find (\<lambda>p. xValueOf str p = k) (s_data s))) ss)"
  by (simp add: csvRow_def rowCells_valid)

lemma rowsFor_valid:
  "validDates ss \<Longrightarrow>
   rowsFor str yStr ss ks
   = Inr (map (\<lambda>k. k # map (\<lambda>s. cell yStr (find (\<lambda>p. xValueOf str p = k) (s_data s))) ss) ks)"
  by (induction ks) (simp_all add: csvRow_valid)

lemma csvRows_valid:
  assumes "validDates ss"
  shows "\<exists>xs. csvRows str yStr ss
              = Inr (map (\<lambda>k. k # map (\<lambda>s. cell yStr (find (\<lambda>p. xValueOf str p = k) (s_data s))) ss) xs)
           \<and> sorted_wrt (<) xs
           \<and> set xs = (\<Union>s\<in>set ss. xValueOf str ` set (s_data s))"
proof -
  from sortedXValues_valid [OF assms, of str]
  obtain xs where "sortedXValues str ss = Inr xs" "sorted_wrt (<) xs"
    "set xs = (\<Union>s\<in>set ss. xValueOf str ` set (s_data s))"
    by blast
  then show ?thesis
    using assms by (intro exI [of _ xs]) (simp add: csvRows_def rowsFor_valid)
qed

lemma csvRows_invalid:
  "\<not> validDates ss \<Longrightarrow> csvRows str yStr ss = Inl RangeError"
  by (simp add: csvRows_def sortedXValues_invalid)

lemma foldl_append_text:
  "foldl (\<lambda>csv k. csv @ f k) acc ks = acc @ concat (map f ks)"
  by (induction ks arbitrary: acc) simp_all

lemma csvText_rows:
  "csvRows str yStr ss = Inr rows \<Longrightarrow>
   csvText str yStr ss = Inr (csvHeader ss @ concat (map (\<lambda>row. join '','' row @ newline) rows))"
  by (simp add: csvText_def foldl_append_text)

lemma csvText_invalid:
  "\<not> validDates ss \<Longrightarrow> csvText str yStr ss = Inl RangeError"
  by (simp add: csvText_def csvRows_invalid)

lemma find_None_iff': "find P xs = None \<longleftrightarrow> (\<forall>x\<in>set xs. \<not> P x)"
  by (induction xs) auto

lemma find_SomeD: "find P xs = Some x \<Longrightarrow> x \<in> set xs \<and> P x"
  by (induction xs) (auto split: if_splits)


text \<open>
  Where every \<open>x\<close> converts, the rows are one for each distinct string of an \<open>x\<close> in the
  union of the \<open>x\<close> values of all series, in strictly ascending order of these strings;
  each row has one cell for each series after the \<open>x\<close>; the cell of a series is the
  empty string where the series has no point with that \<open>x\<close>, and the \<open>y\<close> of its first
  such point otherwise.
\<close>

lemma csvRows_union_in_string_order:
  assumes "validDates ss"
  shows "\<exists>rows. csvRows str yStr ss = Inr rows
     \<and> sorted_wrt (<) (map hd rows)
     \<and> set (map hd rows) = (\<Union>s\<in>set ss. xValueOf str ` set (s_data s))
     \<and> (\<forall>row\<in>set rows. length row = Suc (length ss))
     \<and> (\<forall>row\<in>set rows. \<forall>j<length ss.
           (\<forall>p\<in>set (s_data (ss ! j)). xValueOf str p \<noteq> hd row) \<longrightarrow> row ! Suc j = [])
     \<and> (\<forall>row\<in>set rows. \<forall>j<length ss. \<forall>p.
           find (\<lambda>p. xValueOf str p = hd row) (s_data (ss ! j)) = Some p \<longrightarrow>
           row ! Suc j = yStr (point_y p))"
proof -
  let ?row = "\<lambda>k. k # map (\<lambda>s. cell yStr (find (\<lambda>p. xValueOf str p = k) (s_data s))) ss"
  from csvRows_valid [OF assms, of str yStr]
  obtain xs where r: "csvRows str yStr ss = Inr (map ?row xs)" and s: "sorted_wrt (<) xs"
    and u: "set xs = (\<Union>s\<in>set ss. xValueOf str ` set (s_data s))"
    by blast
  have h: "map hd (map ?row xs) = xs"
    by (simp add: comp_def)
  have 1: "sorted_wrt (<) (map hd (map ?row xs))"
    by (simp only: h s)
  have 2: "set (map hd (map ?row xs)) = (\<Union>s\<in>set ss. xValueOf str ` set (s_data s))"
    by (simp only: h u)
  have 3: "\<forall>row\<in>set (map ?row xs). length row = Suc (length ss)"
    by simp
  have 4: "\<forall>row\<in>set (map ?row xs). \<forall>j<length ss.
           (\<forall>p\<in>set (s_data (ss ! j)). xValueOf str p \<noteq> hd row) \<longrightarrow> row ! Suc j = []"
    by (auto simp: cell_def split: option.splits dest: find_SomeD)
  have 5: "\<forall>row\<in>set (map ?row xs). \<forall>j<length ss. \<forall>p.
           find (\<lambda>p. xValueOf str p = hd row) (s_data (ss ! j)) = Some p \<longrightarrow>
           row ! Suc j = yStr (point_y p)"
    by (auto simp: cell_def)
  from r 1 2 3 4 5 show ?thesis
    by blast
qed


text \<open>
  Series \<open>A\<close> at \<open>x = 1, 2\<close> and \<open>B\<close> at \<open>x = 2, 3\<close>: three rows, \<open>A\<close> blank at \<open>x = 3\<close>
  and \<open>B\<close> blank at \<open>x = 1\<close>.
\<close>

lemma rows_AB:
  "csvRows String_nat String_nat [series_A, series_B]
   = Inr [[''1'', ''10'', []], [''2'', ''20'', ''30''], [''3'', [], ''40'']]"
  by code_simp

text \<open>
  C2. The claim fails on the code, which does not do what its comment
  \<^verbatim>\<open>// Sort x values\<close> says: the rows are in the order of the strings of the
  \<open>x\<close> values, as the default \<^verbatim>\<open>sort()\<close> gives it, not in ascending order of \<open>x\<close>.
  For a series with a point at \<open>x = 2\<close> and one at \<open>x = 10\<close>, the row of \<open>10\<close> comes
  first.
\<close>

theorem csv_rows_not_in_x_order:
  "(2::nat) < 10
   \<and> map point_x (s_data series_2_10) = [XNumber 2, XNumber 10]
   \<and> csvRows String_nat String_nat [series_2_10] = Inr [[''10'', ''5''], [''2'', ''7'']]"
  by code_simp

subsection \<open>What is exported\<close>

lemma handleExportCSV_empty:
  "series p = [] \<Longrightarrow> handleExportCSV str yStr today p st = Inr []"
  by (simp add: handleExportCSV_def)


lemma handleExportCSV_valid:
  assumes "series p \<noteq> []" and "csvRows str yStr (series p) = Inr rows"
  shows "handleExportCSV str yStr today p st =
     Inr ([CreateBlob (csvHeader (series p) @ concat (map (\<lambda>row. join '','' row @ newline) rows)),
           Download (or_string (title p) ''chart-data'' @ ''-'' @ today @ ''.csv'')
             (csvHeader (series p) @ concat (map (\<lambda>row. join '','' row @ newline) rows))]
          @ (if onExport p
             then [Export CSV (csvHeader (series p) @ concat (map (\<lambda>row. join '','' row @ newline) rows))]
             else []))"
  using assms by (simp add: handleExportCSV_def csvText_rows)

lemma handleExportCSV_invalid:
  "series p \<noteq> [] \<Longrightarrow> \<not> validDates (series p) \<Longrightarrow>
   handleExportCSV str yStr today p st = Inl RangeError"
  by (simp add: handleExportCSV_def csvText_invalid)





lemma validDates_csv_props: "validDates (series csv_props)"
  by (simp add: validDates_def csv_props_def series_A_def series_B_def plain_series_def)


text \<open>
  A series list with an invalid date for an \<open>x\<close>: the handler throws.
\<close>

lemma csv_export_invalid_date_example:
  "handleExportCSV String_nat String_nat ''2025-01-01''
     (csv_props\<lparr>series := [series_A, series_bad_date]\<rparr>) csv_state = Inl RangeError"
  by code_simp

text \<open>
  C8, as claimed, fails: with every series toggled off, a click on the export button
  still generates the blob and calls \<open>onExport\<close>.
\<close>

theorem csv_export_no_visible_series_counterexample:
  "visibleSeries none_visible = []
   \<and> exportCSVButton String_nat String_nat ''2025-01-01'' csv_props none_visible
       = Inr [CreateBlob (''Date,A,B'' @ newline @ ''1,10,'' @ newline @ ''2,20,30'' @ newline
                          @ ''3,,40'' @ newline),
              Download ''chart-data-2025-01-01.csv''
                (''Date,A,B'' @ newline @ ''1,10,'' @ newline @ ''2,20,30'' @ newline
                 @ ''3,,40'' @ newline),
              Export CSV (''Date,A,B'' @ newline @ ''1,10,'' @ newline @ ''2,20,30'' @ newline
                          @ ''3,,40'' @ newline)]"
  by code_simp

text \<open>
  C8, amended. With an empty \<open>series\<close> property the CSV export is a silent no-op: no
  exception, no blob, no download, no call of \<open>onExport\<close>. Where no series has a point,
  a click on the export button is one as well: the "no data" placeholder is rendered
  and the button is not there. With a non-empty \<open>series\<close> property the handler goes
  ahead in any state, whatever is visible: where no \<open>x\<close> is an invalid date, the blob is
  generated and downloaded and \<open>onExport\<close>, when supplied, is called; where an \<open>x\<close> is an
  invalid date, the handler throws a \<^verbatim>\<open>RangeError\<close> and has no effect. Where the
  button is there, the series are not empty and a click runs the handler.
\<close>

theorem csv_export_noop_iff_no_series:
  "(series p = [] \<longrightarrow> handleExportCSV str yStr today p st = Inr [])
   \<and> ((\<forall>s\<in>set (series p). s_data s = []) \<longrightarrow> exportCSVButton str yStr today p st = Inr [])
   \<and> (series p \<noteq> [] \<and> validDates (series p) \<longrightarrow>
        (\<exists>csv. handleExportCSV str yStr today p st =
           Inr ([CreateBlob csv,
                 Download (or_string (title p) ''chart-data'' @ ''-'' @ today @ ''.csv'') csv]
                @ (if onExport p then [Export CSV csv] else []))))
   \<and> (series p \<noteq> [] \<and> \<not> validDates (series p) \<longrightarrow>
        handleExportCSV str yStr today p st = Inl RangeError)
   \<and> (render p = ChartView \<and> enableExport p \<longrightarrow>
        exportCSVButton str yStr today p st = handleExportCSV str yStr today p st
        \<and> series p \<noteq> [])"
proof (intro conjI impI)
  assume "series p = []"
  then show "handleExportCSV str yStr today p st = Inr []"
    by (rule handleExportCSV_empty)
next
  assume "\<forall>s\<in>set (series p). s_data s = []"
  then have "render p \<noteq> ChartView"
    by (simp add: render_def)
  then show "exportCSVButton str yStr today p st = Inr []"
    by (simp add: exportCSVButton_def)
next
  assume a: "series p \<noteq> [] \<and> validDates (series p)"
  then have ne: "series p \<noteq> []" and v: "validDates (series p)"
    by simp_all
  from csvRows_valid [OF v, of str yStr]
  obtain rows where r: "csvRows str yStr (series p) = Inr rows"
    by blast
  from handleExportCSV_valid [OF ne r, of today st]
  show "\<exists>csv. handleExportCSV str yStr today p st =
           Inr ([CreateBlob csv,
                 Download (or_string (title p) ''chart-data'' @ ''-'' @ today @ ''.csv'') csv]
                @ (if onExport p then [Export CSV csv] else []))"
    by (rule exI)
next
  assume "series p \<noteq> [] \<and> \<not> validDates (series p)"
  then show "handleExportCSV str yStr today p st = Inl RangeError"
    by (simp add: handleExportCSV_invalid)
next
  assume "render p = ChartView \<and> enableExport p"
  then show "exportCSVButton str yStr today p st = handleExportCSV str yStr today p st"
    by (simp add: exportCSVButton_def)
next
  assume "render p = ChartView \<and> enableExport p"
  then show "series p \<noteq> []"
    by (auto simp: render_def split: if_splits)
qed

theorem csv_export_noop_iff_no_series_witness:
  "series (csv_props\<lparr>series := []\<rparr>) = []
   \<and> series csv_props \<noteq> [] \<and> validDates (series csv_props)
   \<and> series (csv_props\<lparr>series := [series_A, series_bad_date]\<rparr>) \<noteq> []
   \<and> \<not> validDates (series (csv_props\<lparr>series := [series_A, series_bad_date]\<rparr>))
   \<and> render csv_props = ChartView \<and> enableExport csv_props
   \<and> handleExportCSV String_nat String_nat ''2025-01-01'' (csv_props\<lparr>series := []\<rparr>) csv_state
       = Inr []
   \<and> exportCSVButton String_nat String_nat ''2025-01-01''
        (csv_props\<lparr>series := [plain_series ''a'' ''A'' []]\<rparr>) csv_state = Inr []
   \<and> (\<exists>csv. handleExportCSV String_nat String_nat ''2025-01-01'' csv_props none_visible
         = Inr [CreateBlob csv, Download ''chart-data-2025-01-01.csv'' csv, Export CSV csv])
   \<and> handleExportCSV String_nat String_nat ''2025-01-01''
       (csv_props\<lparr>series := [series_A, series_bad_date]\<rparr>) csv_state = Inl RangeError
   \<and> exportCSVButton String_nat String_nat ''2025-01-01'' csv_props none_visible
       = handleExportCSV String_nat String_nat ''2025-01-01'' csv_props none_visible"
proof -
  have a: "series (csv_props\<lparr>series := []\<rparr>) = []" by simp
  have b: "series csv_props \<noteq> []" by (simp add: csv_props_def)
  have v: "validDates (series csv_props)" by (rule validDates_csv_props)
  have b': "series (csv_props\<lparr>series := [series_A, series_bad_date]\<rparr>) \<noteq> []" by simp
  have v': "\<not> validDates (series (csv_props\<lparr>series := [series_A, series_bad_date]\<rparr>))"
    by (simp add: validDates_def series_bad_date_def plain_series_def)
  have r: "render csv_props = ChartView"
    by (simp add: render_def csv_props_def series_A_def series_B_def plain_series_def)
  have x: "enableExport csv_props" by (simp add: csv_props_def)
  have n: "\<forall>s\<in>set (series (csv_props\<lparr>series := [plain_series ''a'' ''A'' []]\<rparr>)). s_data s = []"
    by (simp add: plain_series_def)
  have nm: "or_string (title csv_props) ''chart-data'' = ''chart-data''"
    by (simp add: csv_props_def)
  have oe: "onExport csv_props"
    by (simp add: csv_props_def)
  note t = csv_export_noop_iff_no_series
    [of "csv_props\<lparr>series := []\<rparr>" String_nat String_nat "''2025-01-01''" csv_state]
  note t' = csv_export_noop_iff_no_series
    [of "csv_props\<lparr>series := [plain_series ''a'' ''A'' []]\<rparr>" String_nat String_nat
      "''2025-01-01''" csv_state]
  note u = csv_export_noop_iff_no_series
    [of csv_props String_nat String_nat "''2025-01-01''" none_visible]
  note w = csv_export_noop_iff_no_series
    [of "csv_props\<lparr>series := [series_A, series_bad_date]\<rparr>" String_nat String_nat
      "''2025-01-01''" csv_state]
  have d: "handleExportCSV String_nat String_nat ''2025-01-01'' (csv_props\<lparr>series := []\<rparr>) csv_state
           = Inr []"
    using conjunct1 [OF t] a by (rule mp)
  have d': "exportCSVButton String_nat String_nat ''2025-01-01''
        (csv_props\<lparr>series := [plain_series ''a'' ''A'' []]\<rparr>) csv_state = Inr []"
    using conjunct1 [OF conjunct2 [OF t']] n by (rule mp)
  from mp [OF conjunct1 [OF conjunct2 [OF conjunct2 [OF u]]] conjI [OF b v]]
  obtain csv where "handleExportCSV String_nat String_nat ''2025-01-01'' csv_props none_visible =
           Inr ([CreateBlob csv,
                 Download (or_string (title csv_props) ''chart-data'' @ ''-'' @ ''2025-01-01'' @ ''.csv'') csv]
                @ (if onExport csv_props then [Export CSV csv] else []))" ..
  then have "handleExportCSV String_nat String_nat ''2025-01-01'' csv_props none_visible
         = Inr [CreateBlob csv, Download ''chart-data-2025-01-01.csv'' csv, Export CSV csv]"
    by (simp add: nm oe)
  then have e: "\<exists>csv. handleExportCSV String_nat String_nat ''2025-01-01'' csv_props none_visible
         = Inr [CreateBlob csv, Download ''chart-data-2025-01-01.csv'' csv, Export CSV csv]"
    by (rule exI)
  have f: "handleExportCSV String_nat String_nat ''2025-01-01''
       (csv_props\<lparr>series := [series_A, series_bad_date]\<rparr>) csv_state = Inl RangeError"
    using conjunct1 [OF conjunct2 [OF conjunct2 [OF conjunct2 [OF w]]]] conjI [OF b' v']
    by (rule mp)
  note z = mp [OF conjunct2 [OF conjunct2 [OF conjunct2 [OF conjunct2 [OF u]]]] conjI [OF r x]]
  have g: "exportCSVButton String_nat String_nat ''2025-01-01'' csv_props none_visible
       = handleExportCSV String_nat String_nat ''2025-01-01'' csv_props none_visible"
    using z by (rule conjunct1)
  show ?thesis
    by (intro conjI a b v b' v' r x d d' e f g)
qed

end
